theory Spec2Isabelle
  imports Main "HOL-Library.AList" "HOL-Library.Sublist"
begin

section \<open>Python values and dictionaries\<close>

text \<open>
  The pipeline passes rows around as Python dictionaries with string keys. A value is
  what \<^verbatim>\<open>csv\<close>, \<^verbatim>\<open>pandas\<close>, \<^verbatim>\<open>gspread\<close> or \<^verbatim>\<open>json.loads\<close> can put into such
  a dictionary: \<^verbatim>\<open>None\<close>, a boolean, an integer, a string, a list or a dictionary
  (floats are not modelled: no code path inspects one). A dictionary is an association
  list in insertion order; \<^verbatim>\<open>d[k] = v\<close> overwrites in place or appends, which is
  \<^const>\<open>AList.update\<close>.
\<close>

datatype pyval =
    PyNone
  | PyBool bool
  | PyInt int
  | PyStr string
  | PyList "pyval list"
  | PyDict "(string \<times> pyval) list"

type_synonym pydict = "(string \<times> pyval) list"

text \<open>\<^verbatim>\<open>d.get(k, default)\<close> and \<^verbatim>\<open>d.get(k)\<close> (whose default is \<^verbatim>\<open>None\<close>).\<close>

definition dict_get :: "('k \<times> 'v) list \<Rightarrow> 'k \<Rightarrow> 'v \<Rightarrow> 'v" where
  "dict_get d k dflt = (case map_of d k of None \<Rightarrow> dflt | Some v \<Rightarrow> v)"

definition py_get :: "pydict \<Rightarrow> string \<Rightarrow> pyval" where
  "py_get d k = dict_get d k PyNone"

text \<open>\<^verbatim>\<open>d[k] = v\<close>.\<close>

definition dict_set :: "string \<Rightarrow> pyval \<Rightarrow> pydict \<Rightarrow> pydict" where
  "dict_set k v d = AList.update k v d"

text \<open>The exceptions that the modelled code can raise past a function's boundary.\<close>

datatype error = KeyError string | AttributeError | TypeError | ValueError

section \<open>Strings\<close>

text \<open>
  Strings are lists of characters. The case conversions are those of Python's
  \<^verbatim>\<open>str.lower\<close> and \<^verbatim>\<open>str.capitalize\<close> on ASCII text: the 26 letters change case
  and every other character is kept.
\<close>

definition ascii_uppercase :: string where
  "ascii_uppercase = ''ABCDEFGHIJKLMNOPQRSTUVWXYZ''"

definition ascii_lowercase :: string where
  "ascii_lowercase = ''abcdefghijklmnopqrstuvwxyz''"

definition lower_char :: "char \<Rightarrow> char" where
  "lower_char c = dict_get (zip ascii_uppercase ascii_lowercase) c c"

definition upper_char :: "char \<Rightarrow> char" where
  "upper_char c = dict_get (zip ascii_lowercase ascii_uppercase) c c"

text \<open>\<^verbatim>\<open>s.lower()\<close>.\<close>

definition str_lower :: "string \<Rightarrow> string" where
  "str_lower s = map lower_char s"

text \<open>\<^verbatim>\<open>s.capitalize()\<close>: the first character in upper case, the others in lower case.\<close>

definition capitalize :: "string \<Rightarrow> string" where
  "capitalize s = (case s of [] \<Rightarrow> [] | c # cs \<Rightarrow> upper_char c # map lower_char cs)"

text \<open>\<^verbatim>\<open>sub in s\<close> on strings: \<open>sub\<close> occurs in \<open>s\<close> as a contiguous piece.\<close>

primrec str_contains :: "string \<Rightarrow> string \<Rightarrow> bool" where
  "str_contains sub [] = (sub = [])"
| "str_contains sub (c # cs) = (prefix sub (c # cs) \<or> str_contains sub cs)"

text \<open>\<^verbatim>\<open>sep.join(parts)\<close>.\<close>

fun join :: "string \<Rightarrow> string list \<Rightarrow> string" where
  "join sep [] = []"
| "join sep [x] = x"
| "join sep (x # y # ys) = x @ sep @ join sep (y # ys)"

text \<open>\<^verbatim>\<open>s.replace(a, b)\<close> for single characters \<open>a\<close> and \<open>b\<close>.\<close>

definition replace_char :: "char \<Rightarrow> char \<Rightarrow> string \<Rightarrow> string" where
  "replace_char a b s = map (\<lambda>c. if c = a then b else c) s"

text \<open>
  The text of the exceptions whose message ends up in a result: \<^verbatim>\<open>str(KeyError(k))\<close>
  and the \<^verbatim>\<open>AttributeError\<close> of a method call on a value without that method.
\<close>

definition quoted :: "string \<Rightarrow> string" where
  "quoted s = CHR 0x27 # s @ [CHR 0x27]"

fun type_name :: "pyval \<Rightarrow> string" where
  "type_name PyNone = ''NoneType''"
| "type_name (PyBool b) = ''bool''"
| "type_name (PyInt i) = ''int''"
| "type_name (PyStr s) = ''str''"
| "type_name (PyList xs) = ''list''"
| "type_name (PyDict d) = ''dict''"

definition no_attribute :: "pyval \<Rightarrow> string \<Rightarrow> string" where
  "no_attribute v attr = quoted (type_name v) @ '' object has no attribute '' @ quoted attr"

section \<open>Phase 1: saving the extracted trends (scripts/phase1\_google\_trends.py)\<close>

text \<open>
  Every record built by \<^verbatim>\<open>selenium_extraction\<close> and \<^verbatim>\<open>fallback_extraction\<close> has the
  same six fields.
\<close>

record trend_entry =
  keyword :: string
  interest :: int
  related_topics :: string
  timestamp :: string
  geo :: string
  category :: string

text \<open>
  \<^verbatim>\<open>df.drop_duplicates(subset=['keyword'], keep='first')\<close>: a row is dropped when
  its keyword was seen in an earlier row; the rows kept stay in their order.
\<close>

fun drop_duplicates :: "string list \<Rightarrow> trend_entry list \<Rightarrow> trend_entry list" where
  "drop_duplicates seen [] = []"
| "drop_duplicates seen (r # rs) =
     (if keyword r \<in> set seen then drop_duplicates seen rs
      else r # drop_duplicates (keyword r # seen) rs)"

text \<open>
  \<^verbatim>\<open>save_to_csv\<close>: nothing is saved for an empty extraction (the function returns
  \<^verbatim>\<open>False\<close>, here \<^const>\<open>None\<close>); otherwise the de-duplicated frame is written and is
  the saved output. Failures of the file system are outside the model.
\<close>

definition save_to_csv :: "trend_entry list \<Rightarrow> trend_entry list option" where
  "save_to_csv data = (if data = [] then None else Some (drop_duplicates [] data))"

section \<open>Settings (config/settings.py)\<close>

definition STATUS_PENDING :: string where "STATUS_PENDING = ''Pending''"
definition STATUS_RUN_GPT :: string where "STATUS_RUN_GPT = ''Run GPT''"
definition STATUS_POST_LIVE :: string where "STATUS_POST_LIVE = ''Post Live''"
definition STATUS_PUBLISHED :: string where "STATUS_PUBLISHED = ''Published''"

definition CATEGORY_ADMIT_CARD :: string where "CATEGORY_ADMIT_CARD = ''Admit Card''"
definition CATEGORY_RESULT :: string where "CATEGORY_RESULT = ''Result''"
definition CATEGORY_JOB_NOTIFICATION :: string where
  "CATEGORY_JOB_NOTIFICATION = ''Job Notification''"
definition CATEGORY_NOT_RELEVANT :: string where "CATEGORY_NOT_RELEVANT = ''Not Relevant''"

definition VALID_CATEGORIES :: "string list" where
  "VALID_CATEGORIES =
     [CATEGORY_ADMIT_CARD, CATEGORY_RESULT, CATEGORY_JOB_NOTIFICATION, CATEGORY_NOT_RELEVANT]"

section \<open>The outside world\<close>

text \<open>
  The language-model service, the clock and \<^verbatim>\<open>time.sleep\<close> are outside the program.
  One attempt at the service is the request together with the decoding of its answer
  (in phase 2 the body of the inner \<^verbatim>\<open>try\<close> of \<^verbatim>\<open>categorize_keyword\<close>, in phase 3
  the body of the \<^verbatim>\<open>try\<close> of \<^verbatim>\<open>generate_content_for_keyword\<close> up to
  \<^verbatim>\<open>json.loads\<close>): it either raises, with the text \<^verbatim>\<open>str(e)\<close> of the exception
  (\<^const>\<open>Inl\<close>: network error, error status, body that is not JSON, answer of an
  unexpected shape, content that does not parse), or yields the value that
  \<^verbatim>\<open>json.loads\<close> returned (\<^const>\<open>Inr\<close>). The service is a sequence of such outcomes,
  indexed by the number of attempts made before; the clock is the sequence of the
  timestamps it will return.

  The state threaded through the stages counts the attempts made, records every
  argument of \<^verbatim>\<open>time.sleep\<close> in order, and counts the clock reads. Logging is not
  modelled.
\<close>

type_synonym service = "nat \<Rightarrow> string + pyval"

type_synonym clock = "nat \<Rightarrow> string"

record world =
  calls :: nat
  slept :: "int list"
  ticks :: nat

text \<open>\<^verbatim>\<open>add_delay('openai')\<close> of scripts/utils.py sleeps one second.\<close>

definition add_delay_openai :: "world \<Rightarrow> world" where
  "add_delay_openai w = w\<lparr>slept := slept w @ [1]\<rparr>"

text \<open>\<^verbatim>\<open>get_current_timestamp()\<close>.\<close>

definition get_current_timestamp :: "clock \<Rightarrow> world \<Rightarrow> string \<times> world" where
  "get_current_timestamp now w = (now (ticks w), w\<lparr>ticks := Suc (ticks w)\<rparr>)"

section \<open>Phase 2: categorization (scripts/phase2\_gpt1\_categorization.py)\<close>

text \<open>\<^verbatim>\<open>perform_web_search\<close>: the keyword heuristic that seeds the prompt.\<close>

definition any_in :: "string list \<Rightarrow> string \<Rightarrow> bool" where
  "any_in indicators s = list_ex (\<lambda>indicator. str_contains indicator s) indicators"

definition perform_web_search :: "string \<Rightarrow> string" where
  "perform_web_search kw =
     (let keyword_lower = str_lower kw;
          search_context =
            (if any_in [''admit card'', ''hall ticket'', ''call letter'', ''download''] keyword_lower
             then [''Found admit card indicator in keyword''] else []) @
            (if any_in [''result'', ''merit list'', ''cut off'', ''declared'', ''scorecard'']
                  keyword_lower
             then [''Found result indicator in keyword''] else []) @
            (if any_in [''job'', ''recruitment'', ''notification'', ''vacancy'', ''hiring'']
                  keyword_lower
             then [''Found job notification indicator in keyword''] else []) @
            (if any_in [''ssc'', ''upsc'', ''bank'', ''railway'', ''neet'', ''jee'', ''government'']
                  keyword_lower
             then [''Found government/education context''] else [])
      in if search_context \<noteq> [] then join ''; '' search_context
         else ''No specific job-related context found'')"

text \<open>
  The retry loop of \<^verbatim>\<open>categorize_keyword\<close>, \<^verbatim>\<open>for attempt in range(retries)\<close> with
  its \<^verbatim>\<open>else\<close> branch. The first argument counts the attempts that are left. The
  loop ends in one of three ways: an attempt yields a parsed value and the loop breaks
  (\<open>Inr (Some result)\<close>); the attempts are used up, which is the \<^verbatim>\<open>else\<close> branch
  (\<open>Inr None\<close>); or \<^verbatim>\<open>time.sleep\<close> raises \<^verbatim>\<open>ValueError\<close> inside the handler because
  the delay is negative (\<open>Inl\<close> with the exception's text). After a failed attempt the
  loop sleeps for the current delay and doubles it, also after the last attempt.
\<close>

fun retry_loop :: "service \<Rightarrow> nat \<Rightarrow> int \<Rightarrow> world \<Rightarrow> (string + pyval option) \<times> world" where
  "retry_loop lm 0 backoff w = (Inr None, w)"
| "retry_loop lm (Suc n) backoff w =
     (case lm (calls w) of
        Inr result \<Rightarrow> (Inr (Some result), w\<lparr>calls := Suc (calls w)\<rparr>)
      | Inl e \<Rightarrow>
          if backoff < 0
          then (Inl ''sleep length must be non-negative'', w\<lparr>calls := Suc (calls w)\<rparr>)
          else retry_loop lm n (backoff * 2)
                 (w\<lparr>calls := Suc (calls w), slept := slept w @ [backoff]\<rparr>))"

text \<open>The dictionary returned on every path on which no category was obtained.\<close>

definition fallback :: "string \<Rightarrow> string \<Rightarrow> pydict" where
  "fallback reasoning web_context =
     [(''category'', PyStr CATEGORY_NOT_RELEVANT),
      (''confidence'', PyStr ''Low''),
      (''reasoning'', PyStr reasoning),
      (''web_search_summary'', PyStr web_context)]"

text \<open>
  \<^verbatim>\<open>categorize_keyword(entry, retries=3, backoff=5)\<close>. The whole body is inside
  \<^verbatim>\<open>try ... except Exception\<close>, so every exception becomes a returned dictionary:
  a missing \<^verbatim>\<open>keyword\<close> (\<^verbatim>\<open>KeyError\<close>), a keyword that is not a string (no
  \<^verbatim>\<open>lower\<close> method), a negative delay, and a parsed answer that is not a JSON object
  (no \<^verbatim>\<open>get\<close> method). The handler for \<^verbatim>\<open>json.JSONDecodeError\<close> cannot be reached,
  since \<^verbatim>\<open>json.loads\<close> is only called inside the inner \<^verbatim>\<open>try\<close>. \<^verbatim>\<open>range(retries)\<close>
  is empty for a count below 1.
\<close>

definition categorize_keyword ::
    "service \<Rightarrow> pydict \<Rightarrow> int \<Rightarrow> int \<Rightarrow> world \<Rightarrow> pydict \<times> world" where
  "categorize_keyword lm entry retries backoff w =
     (case map_of entry ''keyword'' of
        None \<Rightarrow> (fallback (''Error: '' @ quoted ''keyword'') '''', w)
      | Some (PyStr kw) \<Rightarrow>
          (let web_context = perform_web_search kw in
           case retry_loop lm (nat retries) backoff w of
             (Inl msg, w') \<Rightarrow> (fallback (''Error: '' @ msg) web_context, w')
           | (Inr None, w') \<Rightarrow> (fallback ''ApiPipe quota exceeded or errors'' web_context, w')
           | (Inr (Some (PyDict result)), w') \<Rightarrow>
               (let category = dict_get result ''category'' (PyStr CATEGORY_NOT_RELEVANT);
                    category = (if category \<in> set (map PyStr VALID_CATEGORIES) then category
                                else PyStr CATEGORY_NOT_RELEVANT)
                in ([(''category'', category),
                     (''confidence'', dict_get result ''confidence'' (PyStr ''Low'')),
                     (''reasoning'', dict_get result ''reasoning'' (PyStr ''No reasoning provided'')),
                     (''web_search_summary'', PyStr web_context)], w'))
           | (Inr (Some v), w') \<Rightarrow>
               (fallback (''Error: '' @ no_attribute v ''get'') web_context, w'))
      | Some v \<Rightarrow> (fallback (''Error: '' @ no_attribute v ''lower'') '''', w))"

text \<open>\<^verbatim>\<open>d.update(other)\<close>: the items of \<open>other\<close> are stored in their order.\<close>

definition dict_update :: "pydict \<Rightarrow> pydict \<Rightarrow> pydict" where
  "dict_update d other = foldl (\<lambda>acc (k, v). dict_set k v acc) d other"

text \<open>
  \<^verbatim>\<open>process_batch\<close>. The log line at the head of the loop reads \<^verbatim>\<open>entry['keyword']\<close>
  outside any \<^verbatim>\<open>try\<close>: an entry without that key raises \<^verbatim>\<open>KeyError\<close> out of the
  batch. Every other entry is categorized with the default arguments, updated in place
  (the status is set to \<^const>\<open>STATUS_PENDING\<close> whatever it was) and appended to the
  result, and the loop sleeps one second.
\<close>

fun process_batch ::
    "service \<Rightarrow> clock \<Rightarrow> pydict list \<Rightarrow> world \<Rightarrow> (error + pydict list) \<times> world" where
  "process_batch lm now [] w = (Inr [], w)"
| "process_batch lm now (entry # rest) w =
     (case map_of entry ''keyword'' of
        None \<Rightarrow> (Inl (KeyError ''keyword''), w)
      | Some kw \<Rightarrow>
          (let (ai_result, w1) = categorize_keyword lm entry 3 5 w;
               (stamp, w2) = get_current_timestamp now w1;
               entry' = dict_update entry
                 [(''category'', py_get ai_result ''category''),
                  (''ai_confidence'', py_get ai_result ''confidence''),
                  (''ai_reasoning'', py_get ai_result ''reasoning''),
                  (''web_search_summary'', py_get ai_result ''web_search_summary''),
                  (''categorized_at'', PyStr stamp),
                  (''status'', PyStr STATUS_PENDING)];
               w3 = add_delay_openai w2
           in case process_batch lm now rest w3 of
                (Inl e, w4) \<Rightarrow> (Inl e, w4)
              | (Inr categorized, w4) \<Rightarrow> (Inr (entry' # categorized), w4)))"

section \<open>The approval gate (auto\_approve.py)\<close>

text \<open>The dictionary \<^verbatim>\<open>confidence_order\<close> and the default threshold of \<^verbatim>\<open>auto_approve\<close>.\<close>

definition confidence_order :: "(string \<times> nat) list" where
  "confidence_order = [(''Low'', 0), (''Medium'', 1), (''High'', 2)]"


text \<open>
  The body of the loop of \<^verbatim>\<open>auto_approve\<close> up to the write. A row of
  \<^verbatim>\<open>csv.DictReader\<close> holds a string for each column, or \<^verbatim>\<open>None\<close> where the line
  was short; \<^verbatim>\<open>capitalize\<close> on anything but a string raises \<^verbatim>\<open>AttributeError\<close>.
  The threshold is looked up as it is given (it is not capitalized) and ranks 1 when
  it is not a key of \<^const>\<open>confidence_order\<close>.
\<close>

definition approve_row :: "string \<Rightarrow> pydict \<Rightarrow> error + pydict" where
  "approve_row min_confidence row =
     (case dict_get row ''ai_confidence'' (PyStr ''Low'') of
        PyStr s \<Rightarrow>
          (let conf = capitalize s;
               cat = dict_get row ''category'' (PyStr '''')
           in if dict_get confidence_order conf 0 \<ge> dict_get confidence_order min_confidence 1
                 \<and> cat \<noteq> PyStr ''Not Relevant''
              then Inr (dict_set ''status'' (PyStr ''Run GPT'') row)
              else Inr row)
      | _ \<Rightarrow> Inl AttributeError)"


text \<open>
  The input file is its header line (the field names) and the lines below it, each
  the list of its cells. \<^verbatim>\<open>csv.DictReader\<close> turns a line into the dictionary of the
  field names and the cells, stored in the order of the columns: a short line is
  filled up with \<^verbatim>\<open>None\<close>, and the surplus cells of a long line are stored under the
  key \<^verbatim>\<open>None\<close>, which is no field name and is kept apart from the dictionary here.
\<close>

definition dict_reader_row :: "string list \<Rightarrow> string list \<Rightarrow> pydict" where
  "dict_reader_row fieldnames cells =
     dict_update []
       (zip fieldnames (map PyStr cells @ replicate (length fieldnames - length cells) PyNone))"

definition has_restkey :: "string list \<Rightarrow> string list \<Rightarrow> bool" where
  "has_restkey fieldnames cells = (length fieldnames < length cells)"

text \<open>The reader skips the empty lines of the file.\<close>

definition dict_reader :: "string list \<Rightarrow> string list list \<Rightarrow> pydict list" where
  "dict_reader fieldnames lines =
     map (dict_reader_row fieldnames) (filter (\<lambda>cells. cells \<noteq> []) lines)"

text \<open>
  \<^verbatim>\<open>csv.DictWriter.writerow\<close> raises \<^verbatim>\<open>ValueError\<close> for a row with a key that is
  not among the field names: the key \<^verbatim>\<open>None\<close> of a long line, or \<^verbatim>\<open>status\<close> when it
  was set on a row of a file without that column. The row handed to the writer stands
  for the line written.
\<close>

definition writerow :: "string list \<Rightarrow> bool \<Rightarrow> pydict \<Rightarrow> error + pydict" where
  "writerow fieldnames restkey row =
     (if restkey \<or> \<not> set (map fst row) \<subseteq> set fieldnames then Inl ValueError
      else Inr row)"

text \<open>
  \<^verbatim>\<open>auto_approve\<close> on a file with the given field names and lines: the rows written
  to the output file, in order, and the exception that ended the loop, if any. The
  rows written before an exception stay in the output file.
\<close>

fun auto_approve ::
    "string list \<Rightarrow> string list list \<Rightarrow> string \<Rightarrow> pydict list \<times> error option" where
  "auto_approve fieldnames [] min_confidence = ([], None)"
| "auto_approve fieldnames (cells # lines) min_confidence =
     (if cells = [] then auto_approve fieldnames lines min_confidence
      else
        (case approve_row min_confidence (dict_reader_row fieldnames cells) of
           Inl e \<Rightarrow> ([], Some e)
         | Inr row \<Rightarrow>
             (case writerow fieldnames (has_restkey fieldnames cells) row of
                Inl e \<Rightarrow> ([], Some e)
              | Inr written \<Rightarrow>
                  (let (more, raised) = auto_approve fieldnames lines min_confidence
                   in (written # more, raised)))))"

section \<open>Phase 3: content generation (scripts/phase3\_gpt2\_content\_generation.py)\<close>

text \<open>The keys of \<^verbatim>\<open>get_content_prompts()\<close>, in the order of the dictionary.\<close>

definition content_types :: "string list" where
  "content_types = [''instagram_post'', ''blog_article'', ''youtube_reel'', ''youtube_thumbnail'']"

text \<open>The value stored for a content type whose request raised: \<^verbatim>\<open>{"error": str(e)}\<close>.\<close>

definition error_marker :: "string \<Rightarrow> pyval" where
  "error_marker msg = PyDict [(''error'', PyStr msg)]"

fun is_error_marker :: "pyval \<Rightarrow> bool" where
  "is_error_marker (PyDict [(k, PyStr msg)]) = (k = ''error'')"
| "is_error_marker v = False"

text \<open>
  The loop over the prompts in \<^verbatim>\<open>generate_content_for_keyword\<close>: one attempt for
  each content type. A parsed answer is stored and followed by the one-second delay; an
  exception is stored as an error marker, and the loop goes on with the next type.
\<close>

fun generate_slots :: "service \<Rightarrow> string list \<Rightarrow> pydict \<Rightarrow> world \<Rightarrow> pydict \<times> world" where
  "generate_slots lm [] generated_content w = (generated_content, w)"
| "generate_slots lm (content_type # rest) generated_content w =
     (case lm (calls w) of
        Inr parsed_content \<Rightarrow>
          generate_slots lm rest (dict_set content_type parsed_content generated_content)
            (add_delay_openai (w\<lparr>calls := Suc (calls w)\<rparr>))
      | Inl e \<Rightarrow>
          generate_slots lm rest (dict_set content_type (error_marker e) generated_content)
            (w\<lparr>calls := Suc (calls w)\<rparr>))"

text \<open>
  \<^verbatim>\<open>generate_content_for_keyword\<close>: \<^verbatim>\<open>None\<close> for an entry that is skipped, the
  content dictionary otherwise. Each path reads \<^verbatim>\<open>entry['keyword']\<close> (in the log line
  or in the dictionary), which raises \<^verbatim>\<open>KeyError\<close> when the key is missing.
\<close>

definition generate_content_for_keyword ::
    "service \<Rightarrow> clock \<Rightarrow> pydict \<Rightarrow> world \<Rightarrow> (error + pydict option) \<times> world" where
  "generate_content_for_keyword lm now entry w =
     (let status = py_get entry ''status'' in
      case map_of entry ''keyword'' of
        None \<Rightarrow> (Inl (KeyError ''keyword''), w)
      | Some kw \<Rightarrow>
          if status \<noteq> PyStr STATUS_RUN_GPT then (Inr None, w)
          else if py_get entry ''category'' = PyStr CATEGORY_NOT_RELEVANT then (Inr None, w)
          else
            (let (stamp, w1) = get_current_timestamp now w;
                 generated_content =
                   [(''keyword'', kw),
                    (''category'', py_get entry ''category''),
                    (''interest_score'', py_get entry ''interest_score''),
                    (''generated_at'', PyStr stamp)];
                 (generated_content, w2) = generate_slots lm content_types generated_content w1
             in (Inr (Some generated_content), w2)))"

text \<open>
  \<^verbatim>\<open>process_approved_entries\<close>: the loop over the approved entries, then the function.
  A content dictionary is appended when it is truthy, that is neither \<^verbatim>\<open>None\<close> nor
  empty.
\<close>

fun generate_all ::
    "service \<Rightarrow> clock \<Rightarrow> pydict list \<Rightarrow> world \<Rightarrow> (error + pydict list) \<times> world" where
  "generate_all lm now [] w = (Inr [], w)"
| "generate_all lm now (entry # rest) w =
     (case map_of entry ''keyword'' of
        None \<Rightarrow> (Inl (KeyError ''keyword''), w)
      | Some kw \<Rightarrow>
          (case generate_content_for_keyword lm now entry w of
             (Inl e, w1) \<Rightarrow> (Inl e, w1)
           | (Inr content, w1) \<Rightarrow>
               (case generate_all lm now rest w1 of
                  (Inl e, w2) \<Rightarrow> (Inl e, w2)
                | (Inr results, w2) \<Rightarrow>
                    (case content of
                       None \<Rightarrow> (Inr results, w2)
                     | Some c \<Rightarrow> (if c \<noteq> [] then (Inr (c # results), w2)
                                  else (Inr results, w2))))))"

definition process_approved_entries ::
    "service \<Rightarrow> clock \<Rightarrow> pydict list \<Rightarrow> world \<Rightarrow> (error + pydict list) \<times> world" where
  "process_approved_entries lm now data w =
     (let approved = filter (\<lambda>e. py_get e ''status'' = PyStr STATUS_RUN_GPT) data
      in if approved = [] then (Inr [], w) else generate_all lm now approved w)"

text \<open>
  Keys of a Python dictionary: lists and dictionaries cannot be hashed
  (\<^verbatim>\<open>TypeError\<close>), and \<^verbatim>\<open>True\<close> and \<^verbatim>\<open>False\<close> are the same keys as 1 and 0.
\<close>

fun hashable :: "pyval \<Rightarrow> bool" where
  "hashable (PyList xs) = False"
| "hashable (PyDict d) = False"
| "hashable v = True"

fun key_norm :: "pyval \<Rightarrow> pyval" where
  "key_norm (PyBool b) = PyInt (if b then 1 else 0)"
| "key_norm v = v"

text \<open>
  The keys of \<^verbatim>\<open>content_map = {item['keyword']: item for item in generated_content}\<close>
  (the values of the map are not used).
\<close>

fun content_map_keys :: "pydict list \<Rightarrow> error + pyval list" where
  "content_map_keys [] = Inr []"
| "content_map_keys (item # items) =
     (case map_of item ''keyword'' of
        None \<Rightarrow> Inl (KeyError ''keyword'')
      | Some k \<Rightarrow>
          if hashable k
          then (case content_map_keys items of
                  Inl e \<Rightarrow> Inl e
                | Inr ks \<Rightarrow> Inr (key_norm k # ks))
          else Inl TypeError)"

definition base_url :: string where
  "base_url = ''https://your-public-host.com/ai-content''"

text \<open>
  The body of the loop of \<^verbatim>\<open>update_original_data_with_content_links\<close> for one
  entry. The status and the timestamp are written first; \<^verbatim>\<open>key.replace\<close> raises
  \<^verbatim>\<open>AttributeError\<close> for a keyword that is not a string.
\<close>

definition update_entry ::
    "clock \<Rightarrow> pyval list \<Rightarrow> pydict \<Rightarrow> world \<Rightarrow> (error + pydict) \<times> world" where
  "update_entry now content_keys entry w =
     (case map_of entry ''keyword'' of
        None \<Rightarrow> (Inl (KeyError ''keyword''), w)
      | Some key \<Rightarrow>
          if \<not> hashable key then (Inl TypeError, w)
          else if key_norm key \<in> set content_keys then
            (let entry1 =
                   (if py_get entry ''category'' = PyStr CATEGORY_NOT_RELEVANT
                    then dict_set ''status'' (PyStr ''Not Relevant'') entry
                    else dict_set ''status'' (PyStr ''Content Generated'') entry);
                 (stamp, w1) = get_current_timestamp now w;
                 entry2 = dict_set ''content_generated_at'' (PyStr stamp) entry1
             in case key of
                  PyStr k \<Rightarrow>
                    (let name = replace_char CHR '' '' CHR ''_'' k;
                         entry3 = dict_set ''instagram_link''
                           (PyStr (base_url @ ''/instagram_'' @ name @ ''.txt'')) entry2;
                         entry4 = dict_set ''blog_link''
                           (PyStr (base_url @ ''/blog_'' @ name @ ''.html'')) entry3;
                         entry5 = dict_set ''youtube_reel_link''
                           (PyStr (base_url @ ''/reel_'' @ name @ ''.txt'')) entry4;
                         entry6 = dict_set ''youtube_thumbnail_link''
                           (PyStr (base_url @ ''/thumbnail_'' @ name @ ''.png'')) entry5
                     in (Inr entry6, w1))
                | _ \<Rightarrow> (Inl AttributeError, w1))
          else (Inr entry, w))"

fun update_entries ::
    "clock \<Rightarrow> pyval list \<Rightarrow> pydict list \<Rightarrow> world \<Rightarrow> (error + pydict list) \<times> world" where
  "update_entries now content_keys [] w = (Inr [], w)"
| "update_entries now content_keys (entry # rest) w =
     (case update_entry now content_keys entry w of
        (Inl e, w1) \<Rightarrow> (Inl e, w1)
      | (Inr entry', w1) \<Rightarrow>
          (case update_entries now content_keys rest w1 of
             (Inl e, w2) \<Rightarrow> (Inl e, w2)
           | (Inr updated, w2) \<Rightarrow> (Inr (entry' # updated), w2)))"

definition update_original_data_with_content_links ::
    "clock \<Rightarrow> pydict list \<Rightarrow> pydict list \<Rightarrow> world \<Rightarrow> (error + pydict list) \<times> world" where
  "update_original_data_with_content_links now original_data generated_content w =
     (case content_map_keys generated_content of
        Inl e \<Rightarrow> (Inl e, w)
      | Inr content_keys \<Rightarrow> update_entries now content_keys original_data w)"

text \<open>The truth value of a Python value, as \<^verbatim>\<open>if x\<close> tests it.\<close>

fun truthy :: "pyval \<Rightarrow> bool" where
  "truthy PyNone = False"
| "truthy (PyBool b) = b"
| "truthy (PyInt i) = (i \<noteq> 0)"
| "truthy (PyStr s) = (s \<noteq> [])"
| "truthy (PyList xs) = (xs \<noteq> [])"
| "truthy (PyDict d) = (d \<noteq> [])"

text \<open>
  One row of the summary that \<^verbatim>\<open>run\<close> builds from a content dictionary. The
  entries of the dictionary literal are evaluated in their order:
  \<^verbatim>\<open>item['keyword']\<close> and \<^verbatim>\<open>item['category']\<close> raise \<^verbatim>\<open>KeyError\<close> when the key is
  missing; \<^verbatim>\<open>instagram.get\<close> and \<^verbatim>\<open>blog.get\<close> raise \<^verbatim>\<open>AttributeError\<close> when the
  value stored for the content type is not a dictionary; for a truthy caption the
  preview is \<^verbatim>\<open>caption[:100] + '...'\<close>, which raises unless the caption is a string
  (\<^verbatim>\<open>TypeError\<close>; \<^verbatim>\<open>run\<close> catches every exception alike).
\<close>

definition summary_row :: "pydict \<Rightarrow> error + pydict" where
  "summary_row item =
     (let instagram = dict_get item ''instagram_post'' (PyDict []);
          blog = dict_get item ''blog_article'' (PyDict [])
      in case map_of item ''keyword'' of
           None \<Rightarrow> Inl (KeyError ''keyword'')
         | Some kw \<Rightarrow>
         (case map_of item ''category'' of
           None \<Rightarrow> Inl (KeyError ''category'')
         | Some cat \<Rightarrow>
         (case instagram of
           PyDict ig \<Rightarrow>
             (case (if truthy (py_get ig ''caption'')
                    then (case dict_get ig ''caption'' (PyStr '''') of
                            PyStr s \<Rightarrow> Inr (PyStr (take 100 s @ ''...''))
                          | _ \<Rightarrow> Inl TypeError)
                    else Inr (PyStr '''')) of
                Inl e \<Rightarrow> Inl e
              | Inr preview \<Rightarrow>
                  (case blog of
                     PyDict bl \<Rightarrow>
                       Inr [(''keyword'', kw),
                            (''category'', cat),
                            (''instagram_caption_preview'', preview),
                            (''blog_title'', dict_get bl ''title'' (PyStr '''')),
                            (''generated_at'', dict_get item ''generated_at'' (PyStr '''')),
                            (''content_status'', PyStr ''Generated'')]
                   | _ \<Rightarrow> Inl AttributeError))
         | _ \<Rightarrow> Inl AttributeError)))"

fun build_summary :: "pydict list \<Rightarrow> error + pydict list" where
  "build_summary [] = Inr []"
| "build_summary (item # items) =
     (case summary_row item of
        Inl e \<Rightarrow> Inl e
      | Inr row \<Rightarrow>
          (case build_summary items of
             Inl e \<Rightarrow> Inl e
           | Inr summary \<Rightarrow> Inr (row # summary)))"

text \<open>
  \<^verbatim>\<open>GPT2ContentGenerationAgent.run\<close> on the entries loaded from
  \<^verbatim>\<open>phase2_approved.csv\<close>. The result is the value returned, the content saved to
  \<^verbatim>\<open>generated_content.json\<close> and the entries saved to \<^verbatim>\<open>updated_trends_data.csv\<close>
  (\<^const>\<open>None\<close> for a file that is not written). The content is saved before the
  summary is built, the entries after it; an exception anywhere is caught and makes the
  function return \<^verbatim>\<open>False\<close>. Failures of the file system are not modelled.
\<close>

definition agent_run ::
    "service \<Rightarrow> clock \<Rightarrow> pydict list \<Rightarrow> world \<Rightarrow>
     (bool \<times> pydict list option \<times> pydict list option) \<times> world" where
  "agent_run lm now data w =
     (case process_approved_entries lm now data w of
        (Inl e, w1) \<Rightarrow> ((False, None, None), w1)
      | (Inr generated_content, w1) \<Rightarrow>
          if generated_content = [] then ((False, None, None), w1)
          else
            (case build_summary generated_content of
               Inl e \<Rightarrow> ((False, Some generated_content, None), w1)
             | Inr summary \<Rightarrow>
                 (case update_original_data_with_content_links now data generated_content w1 of
                    (Inl e, w2) \<Rightarrow> ((False, Some generated_content, None), w2)
                  | (Inr updated_data, w2) \<Rightarrow>
                      ((True, Some generated_content, Some updated_data), w2))))"

section \<open>The publish stage (scripts/publish\_content.py)\<close>

text \<open>
  The worksheet is the grid of its values: the header row, and the rows below it, the
  first of them row 2 of the sheet. A row is the list of its cells up to the last one
  that holds a value, each cell with the value that \<^verbatim>\<open>get_all_records\<close> reads from it
  (a number for a cell that reads as one, a string otherwise).
\<close>

record worksheet =
  header :: "string list"
  body :: "pyval list list"

text \<open>
  \<^verbatim>\<open>get_all_records\<close> fills every row, the header row included, with empty strings up
  to the width of the grid, and returns \<^verbatim>\<open>dict(zip(keys, row))\<close> for each row below the
  header: of two columns with the same heading the right one is read. (A version of
  the library that refuses a header row with a repeated heading raises before the
  loop of \<^verbatim>\<open>Publisher.run\<close> is entered.)
\<close>

definition sheet_width :: "worksheet \<Rightarrow> nat" where
  "sheet_width ws = foldr max (map length (body ws)) (length (header ws))"

definition fill_gaps :: "nat \<Rightarrow> 'a \<Rightarrow> 'a list \<Rightarrow> 'a list" where
  "fill_gaps n blank row = row @ replicate (n - length row) blank"

definition header_keys :: "worksheet \<Rightarrow> string list" where
  "header_keys ws = fill_gaps (sheet_width ws) '''' (header ws)"

definition get_rows :: "worksheet \<Rightarrow> pydict list" where
  "get_rows ws =
     map (\<lambda>row. dict_update []
                  (zip (header_keys ws) (fill_gaps (sheet_width ws) (PyStr '''') row)))
       (body ws)"

text \<open>
  \<^verbatim>\<open>update_status\<close> writes cell D of the row with the given number, that is its
  fourth cell, whatever the heading of that column is. \<^verbatim>\<open>Publisher.run\<close> calls it with
  the numbers of the rows that \<^const>\<open>get_rows\<close> returned, and only those are modelled.
\<close>

definition update_status :: "worksheet \<Rightarrow> nat \<Rightarrow> string \<Rightarrow> worksheet" where
  "update_status worksheet row_num status =
     (if 2 \<le> row_num \<and> row_num - 2 < length (body worksheet)
      then worksheet\<lparr>body := (body worksheet)
             [row_num - 2 :=
                (fill_gaps 4 (PyStr '''') (body worksheet ! (row_num - 2)))[3 := PyStr status]]\<rparr>
      else worksheet)"

text \<open>
  The three mock publishers print; what they print is recorded.
  \<^verbatim>\<open>mock_publish_blog\<close> joins its links with \<^verbatim>\<open>', '.join\<close>, which raises
  \<^verbatim>\<open>TypeError\<close> for a link that is not a string; nothing catches it.
\<close>

datatype effect =
    MockInstagram pyval
  | MockBlog pyval string
  | MockYoutube pyval

text \<open>
  The loop of \<^verbatim>\<open>Publisher.run\<close> over the records read at the start, with the row
  number, the worksheet and the effects so far. The result is the exception raised, if
  any, the worksheet and the effects.
\<close>

fun publish_rows ::
    "nat \<Rightarrow> pydict list \<Rightarrow> worksheet \<Rightarrow> effect list \<Rightarrow>
     error option \<times> worksheet \<times> effect list" where
  "publish_rows idx [] worksheet effects = (None, worksheet, effects)"
| "publish_rows idx (row # rows) worksheet effects =
     (let status = py_get row ''Status'';
          approval = py_get row ''Approval'';
          kw = py_get row ''Keyword''
      in if approval \<noteq> PyStr ''Approved'' \<or> status = PyStr ''Not Relevant''
         then publish_rows (Suc idx) rows worksheet effects
         else if status = PyStr ''Published''
         then publish_rows (Suc idx) rows worksheet effects
         else
           (case py_get row ''Blog Link'' of
              PyStr link \<Rightarrow>
                publish_rows (Suc idx) rows (update_status worksheet idx ''Published'')
                  (effects @ [MockInstagram (py_get row ''Instagram Link''),
                              MockBlog kw (join '', '' [link]),
                              MockYoutube (py_get row ''Youtube Thumbnail Link'')])
            | _ \<Rightarrow> (Some TypeError, worksheet,
                     effects @ [MockInstagram (py_get row ''Instagram Link'')])))"

definition run :: "worksheet \<Rightarrow> error option \<times> worksheet \<times> effect list" where
  "run worksheet = publish_rows 2 (get_rows worksheet) worksheet []"

section \<open>The order of the statuses\<close>

text \<open>
  Modelled from the spec: the order of the workflow positions and the function
  \<^verbatim>\<open>is_valid_transition\<close> of the status model, which the source does not contain
  (statuses are plain strings there). The spelling of each status is the one the source
  writes.
\<close>

datatype status = Pending | RunGpt | ContentGenerated | PostLive | Published | NotRelevant

fun status_name :: "status \<Rightarrow> string" where
  "status_name Pending = ''Pending''"
| "status_name RunGpt = ''Run GPT''"
| "status_name ContentGenerated = ''Content Generated''"
| "status_name PostLive = ''Post Live''"
| "status_name Published = ''Published''"
| "status_name NotRelevant = ''Not Relevant''"

fun status_rank :: "status \<Rightarrow> nat" where
  "status_rank Pending = 0"
| "status_rank RunGpt = 1"
| "status_rank ContentGenerated = 2"
| "status_rank PostLive = 3"
| "status_rank Published = 4"
| "status_rank NotRelevant = 5"

text \<open>
  Modelled from the spec: a status may stay or move forward along Pending, Run GPT,
  Content Generated, Post Live, Published; Not Relevant is entered from Pending or Run
  GPT only and is never left. The two cases with Not Relevant are decided before any
  ranks are compared, so the rank given to Not Relevant plays no part.
\<close>

definition is_valid_transition :: "status \<Rightarrow> status \<Rightarrow> bool" where
  "is_valid_transition before after =
     (if before = NotRelevant then after = NotRelevant
      else if after = NotRelevant then before = Pending \<or> before = RunGpt
      else status_rank before \<le> status_rank after)"

text \<open>
  Modelled from the spec: the ranks of the confidence levels, Low = 0, Medium = 1,
  High = 2, on the closed enumeration of the data model.
\<close>

datatype confidence = Low | Medium | High

fun confidence_name :: "confidence \<Rightarrow> string" where
  "confidence_name Low = ''Low''"
| "confidence_name Medium = ''Medium''"
| "confidence_name High = ''High''"

fun confidence_rank :: "confidence \<Rightarrow> nat" where
  "confidence_rank Low = 0"
| "confidence_rank Medium = 1"
| "confidence_rank High = 2"

section \<open>The publish stage as the specification describes it\<close>

text \<open>
  Modelled from the spec: the rows that are published, namely the approved rows that
  are not yet published and not marked Not Relevant.
\<close>

definition publishable :: "pydict \<Rightarrow> bool" where
  "publishable row =
     (py_get row ''Approval'' = PyStr ''Approved''
      \<and> py_get row ''Status'' \<noteq> PyStr ''Published''
      \<and> py_get row ''Status'' \<noteq> PyStr ''Not Relevant'')"

text \<open>
  Modelled from the spec: the stage writes the status Published back to a row that it
  publishes and leaves every other row alone.
\<close>

definition published_row :: "pydict \<Rightarrow> pydict" where
  "published_row row =
     (if publishable row then dict_set ''Status'' (PyStr ''Published'') row else row)"

text \<open>
  Modelled from the spec: the side effects of publishing a row, with the values that
  the mock publishers of the source print.
\<close>

definition publish_effects :: "pydict \<Rightarrow> effect list" where
  "publish_effects row =
     (if publishable row
      then (case py_get row ''Blog Link'' of
              PyStr link \<Rightarrow>
                [MockInstagram (py_get row ''Instagram Link''),
                 MockBlog (py_get row ''Keyword'') link,
                 MockYoutube (py_get row ''Youtube Thumbnail Link'')]
            | _ \<Rightarrow> [])
      else [])"

text \<open>
  The cells of a row after \<^const>\<open>update_status\<close> has written Published to it, and the
  worksheet in which the rows that satisfy a predicate on their records have been
  written to.
\<close>

definition published_cells :: "pyval list \<Rightarrow> pyval list" where
  "published_cells row = (fill_gaps 4 (PyStr '''') row)[3 := PyStr ''Published'']"

definition written_sheet :: "(pydict \<Rightarrow> bool) \<Rightarrow> worksheet \<Rightarrow> worksheet" where
  "written_sheet p ws =
     ws\<lparr>body := map (\<lambda>(r, row). if p r then published_cells row else row)
                   (zip (get_rows ws) (body ws))\<rparr>"

text \<open>
  The entries that \<^const>\<open>generate_content_for_keyword\<close> does not skip: status Run GPT and
  a category other than Not Relevant.
\<close>

definition approved_relevant :: "pydict \<Rightarrow> bool" where
  "approved_relevant e =
     (py_get e ''status'' = PyStr ''Run GPT'' \<and> py_get e ''category'' \<noteq> PyStr ''Not Relevant'')"


section \<open>Properties of phase 1\<close>


lemma drop_duplicates_seen:
  "k \<in> set seen \<Longrightarrow> filter (\<lambda>r. keyword r = k) (drop_duplicates seen rs) = []"
  by (induction rs arbitrary: seen) auto

lemma drop_duplicates_first:
  "k \<notin> set seen \<Longrightarrow>
   filter (\<lambda>r. keyword r = k) (drop_duplicates seen rs) = take 1 (filter (\<lambda>r. keyword r = k) rs)"
proof (induction rs arbitrary: seen)
  case Nil
  then show ?case by simp
next
  case (Cons r rs)
  show ?case
  proof (cases "keyword r \<in> set seen")
    case True
    with Cons.prems have "keyword r \<noteq> k" by auto
    with True Cons show ?thesis by simp
  next
    case False
    show ?thesis
    proof (cases "keyword r = k")
      case True
      with False show ?thesis
        by (simp add: drop_duplicates_seen)
    next
      case neq: False
      with Cons.prems have "k \<notin> set (keyword r # seen)"
        by auto
      with False neq Cons.IH show ?thesis by simp
    qed
  qed
qed

text \<open>
  Claim C8, as the specification states it: of two records with the same keyword, the
  saved output keeps exactly one, the later one. The source keeps the first: for the
  two records of the specification's own example, the saved output is the earlier
  record and not the later one.
\<close>

theorem C8_last_seen_counterexample:
  "save_to_csv
     [\<lparr>keyword = ''ssc result'', interest = 50, related_topics = ''merit list'',
       timestamp = ''2025-01-01 10:00:00'', geo = ''IN'', category = ''Result''\<rparr>,
      \<lparr>keyword = ''ssc result'', interest = 60, related_topics = ''merit list'',
       timestamp = ''2025-01-01 10:00:05'', geo = ''IN'', category = ''Result''\<rparr>]
   = Some
     [\<lparr>keyword = ''ssc result'', interest = 50, related_topics = ''merit list'',
       timestamp = ''2025-01-01 10:00:00'', geo = ''IN'', category = ''Result''\<rparr>]
   \<and> save_to_csv
     [\<lparr>keyword = ''ssc result'', interest = 50, related_topics = ''merit list'',
       timestamp = ''2025-01-01 10:00:00'', geo = ''IN'', category = ''Result''\<rparr>,
      \<lparr>keyword = ''ssc result'', interest = 60, related_topics = ''merit list'',
       timestamp = ''2025-01-01 10:00:05'', geo = ''IN'', category = ''Result''\<rparr>]
   \<noteq> Some
     [\<lparr>keyword = ''ssc result'', interest = 60, related_topics = ''merit list'',
       timestamp = ''2025-01-01 10:00:05'', geo = ''IN'', category = ''Result''\<rparr>]"
  by (simp add: save_to_csv_def)

text \<open>
  Claim C8, amended: when the extracted data holds a record \<open>a\<close> with a keyword that
  no earlier record has, and a later record \<open>b\<close> with the same keyword, then the data
  is saved, exactly one record with that keyword is in the saved output, and it is the
  earlier record \<open>a\<close> (first seen wins).
\<close>

theorem C8_first_seen_wins:
  assumes "keyword a = k" and "keyword b = k" and "k \<notin> keyword ` set xs"
  shows "\<exists>saved. save_to_csv (xs @ a # ys @ b # zs) = Some saved
           \<and> filter (\<lambda>r. keyword r = k) saved = [a]"
proof -
  have "filter (\<lambda>r. keyword r = k) xs = []"
    using assms(3) by (auto simp: filter_empty_conv)
  then have "take 1 (filter (\<lambda>r. keyword r = k) (xs @ a # ys @ b # zs)) = [a]"
    using assms(1) by simp
  then have "filter (\<lambda>r. keyword r = k) (drop_duplicates [] (xs @ a # ys @ b # zs)) = [a]"
    by (simp add: drop_duplicates_first)
  then show ?thesis
    by (simp add: save_to_csv_def)
qed

theorem C8_first_seen_wins_witness:
  "\<exists>saved.
     save_to_csv
       ([] @ \<lparr>keyword = ''ssc result'', interest = 50, related_topics = ''merit list'',
              timestamp = ''2025-01-01 10:00:00'', geo = ''IN'', category = ''Result''\<rparr>
           # [\<lparr>keyword = ''jee result'', interest = 70, related_topics = ''merit list'',
               timestamp = ''2025-01-01 10:00:02'', geo = ''IN'', category = ''Result''\<rparr>]
           @ \<lparr>keyword = ''ssc result'', interest = 60, related_topics = ''merit list'',
               timestamp = ''2025-01-01 10:00:05'', geo = ''IN'', category = ''Result''\<rparr>
           # []) = Some saved
     \<and> filter (\<lambda>r. keyword r = ''ssc result'') saved =
         [\<lparr>keyword = ''ssc result'', interest = 50, related_topics = ''merit list'',
           timestamp = ''2025-01-01 10:00:00'', geo = ''IN'', category = ''Result''\<rparr>]"
  by (rule C8_first_seen_wins) simp_all

section \<open>Properties of the retry loop\<close>

lemmas string_defs = str_lower_def lower_char_def upper_char_def capitalize_def
  ascii_uppercase_def ascii_lowercase_def dict_get_def replace_char_def quoted_def
  no_attribute_def

lemmas settings_defs = STATUS_PENDING_def STATUS_RUN_GPT_def STATUS_POST_LIVE_def
  STATUS_PUBLISHED_def CATEGORY_ADMIT_CARD_def CATEGORY_RESULT_def
  CATEGORY_JOB_NOTIFICATION_def CATEGORY_NOT_RELEVANT_def VALID_CATEGORIES_def

lemma retry_loop_all_fail:
  "\<forall>i<n. \<exists>e. lm (calls w + i) = Inl e \<Longrightarrow> 0 \<le> d \<Longrightarrow>
   retry_loop lm n d w =
     (Inr None, w\<lparr>calls := calls w + n, slept := slept w @ map (\<lambda>i. d * 2 ^ i) [0..<n]\<rparr>)"
proof (induction n arbitrary: d w)
  case 0
  then show ?case by simp
next
  case (Suc n)
  from Suc.prems(1) obtain e where e: "lm (calls w) = Inl e"
    by force
  let ?w = "w\<lparr>calls := Suc (calls w), slept := slept w @ [d]\<rparr>"
  have "\<forall>i<n. \<exists>e. lm (calls ?w + i) = Inl e"
  proof (intro allI impI)
    fix i assume "i < n"
    then have "Suc i < Suc n" by simp
    with Suc.prems(1) have "\<exists>e. lm (calls w + Suc i) = Inl e" by blast
    then show "\<exists>e. lm (calls ?w + i) = Inl e" by simp
  qed
  moreover have "0 \<le> d * 2" using Suc.prems(2) by simp
  ultimately have "retry_loop lm n (d * 2) ?w =
     (Inr None, ?w\<lparr>calls := calls ?w + n, slept := slept ?w @ map (\<lambda>i. d * 2 * 2 ^ i) [0..<n]\<rparr>)"
    by (rule Suc.IH)
  moreover have "map (\<lambda>i. d * 2 ^ i) [0..<Suc n] = d # map (\<lambda>i. d * 2 * 2 ^ i) [0..<n]"
    by (simp add: upt_rec[of 0 "Suc n"] map_Suc_upt[symmetric] del: upt_Suc)
  ultimately show ?case
    using e Suc.prems(2) by simp
qed

lemma retry_loop_first_success:
  "\<forall>i<k. \<exists>e. lm (calls w + i) = Inl e \<Longrightarrow> lm (calls w + k) = Inr r \<Longrightarrow> k < n \<Longrightarrow> 0 \<le> d \<Longrightarrow>
   retry_loop lm n d w =
     (Inr (Some r),
      w\<lparr>calls := calls w + k + 1, slept := slept w @ map (\<lambda>i. d * 2 ^ i) [0..<k]\<rparr>)"
proof (induction k arbitrary: n d w)
  case 0
  then obtain m where "n = Suc m" by (cases n) auto
  with 0 show ?case by simp
next
  case (Suc k)
  from Suc.prems(3) obtain m where n: "n = Suc m" and km: "k < m" by (cases n) auto
  from Suc.prems(1) obtain e where e: "lm (calls w) = Inl e"
    by force
  let ?w = "w\<lparr>calls := Suc (calls w), slept := slept w @ [d]\<rparr>"
  have "\<forall>i<k. \<exists>e. lm (calls ?w + i) = Inl e"
  proof (intro allI impI)
    fix i assume "i < k"
    then have "Suc i < Suc k" by simp
    with Suc.prems(1) have "\<exists>e. lm (calls w + Suc i) = Inl e" by blast
    then show "\<exists>e. lm (calls ?w + i) = Inl e" by simp
  qed
  moreover have "lm (calls ?w + k) = Inr r" using Suc.prems(2) by simp
  moreover have "0 \<le> d * 2" using Suc.prems(4) by simp
  ultimately have "retry_loop lm m (d * 2) ?w =
     (Inr (Some r), ?w\<lparr>calls := calls ?w + k + 1, slept := slept ?w @ map (\<lambda>i. d * 2 * 2 ^ i) [0..<k]\<rparr>)"
    using km by (intro Suc.IH)
  moreover have "map (\<lambda>i. d * 2 ^ i) [0..<Suc k] = d # map (\<lambda>i. d * 2 * 2 ^ i) [0..<k]"
    by (simp add: upt_rec[of 0 "Suc k"] map_Suc_upt[symmetric] del: upt_Suc)
  ultimately show ?case
    using e n Suc.prems(4) by simp
qed

lemma retry_loop_calls_le: "calls (snd (retry_loop lm n d w)) \<le> calls w + n"
proof (induction n arbitrary: d w)
  case 0
  then show ?case by simp
next
  case (Suc n)
  have "calls (snd (retry_loop lm n (d * 2) (w\<lparr>calls := Suc (calls w), slept := slept w @ [d]\<rparr>)))
          \<le> Suc (calls w) + n"
    using Suc.IH[of "d * 2" "w\<lparr>calls := Suc (calls w), slept := slept w @ [d]\<rparr>"] by simp
  then show ?case
    by (simp split: sum.split)
qed

lemma sum_doubling: "sum_list (map (\<lambda>i. d * 2 ^ i) [0..<n]) = d * (2 ^ n - 1)" for d :: int
  by (induction n) (simp_all add: algebra_simps)


lemmas eval_defs = categorize_keyword_def perform_web_search_def any_in_def string_defs
  settings_defs fallback_def py_get_def dict_set_def dict_update_def add_delay_openai_def
  get_current_timestamp_def

section \<open>Properties of the categorization of one entry\<close>

lemma categorize_exhausted:
  assumes "map_of entry ''keyword'' = Some (PyStr kw)"
      and "\<forall>i<nat n. \<exists>e. lm (calls w + i) = Inl e" and "0 \<le> d"
  shows "categorize_keyword lm entry n d w =
           (fallback ''ApiPipe quota exceeded or errors'' (perform_web_search kw),
            w\<lparr>calls := calls w + nat n,
              slept := slept w @ map (\<lambda>i. d * 2 ^ i) [0..<nat n]\<rparr>)"
  using assms(1) retry_loop_all_fail[OF assms(2,3)]
  by (simp add: categorize_keyword_def)

lemma categorize_parsed:
  assumes "map_of entry ''keyword'' = Some (PyStr kw)"
      and "\<forall>i<k. \<exists>e. lm (calls w + i) = Inl e" and "lm (calls w + k) = Inr (PyDict result)"
      and "k < nat n" and "0 \<le> d"
  shows "categorize_keyword lm entry n d w =
           ([(''category'',
              if dict_get result ''category'' (PyStr CATEGORY_NOT_RELEVANT)
                   \<in> set (map PyStr VALID_CATEGORIES)
              then dict_get result ''category'' (PyStr CATEGORY_NOT_RELEVANT)
              else PyStr CATEGORY_NOT_RELEVANT),
             (''confidence'', dict_get result ''confidence'' (PyStr ''Low'')),
             (''reasoning'', dict_get result ''reasoning'' (PyStr ''No reasoning provided'')),
             (''web_search_summary'', PyStr (perform_web_search kw))],
            w\<lparr>calls := calls w + k + 1,
              slept := slept w @ map (\<lambda>i. d * 2 ^ i) [0..<k]\<rparr>)"
  using assms(1) retry_loop_first_success[OF assms(2,3,4,5)]
  by (simp add: categorize_keyword_def Let_def)

lemma categorize_not_object:
  assumes "map_of entry ''keyword'' = Some (PyStr kw)"
      and "\<forall>i<k. \<exists>e. lm (calls w + i) = Inl e" and "lm (calls w + k) = Inr r"
      and "\<forall>result. r \<noteq> PyDict result"
      and "k < nat n" and "0 \<le> d"
  shows "categorize_keyword lm entry n d w =
           (fallback (''Error: '' @ no_attribute r ''get'') (perform_web_search kw),
            w\<lparr>calls := calls w + k + 1,
              slept := slept w @ map (\<lambda>i. d * 2 ^ i) [0..<k]\<rparr>)"
  using assms(1,4) retry_loop_first_success[OF assms(2,3,5,6)]
  by (cases r) (simp_all add: categorize_keyword_def Let_def)

lemma categorize_keys:
  "map fst (fst (categorize_keyword lm entry n d w)) =
     [''category'', ''confidence'', ''reasoning'', ''web_search_summary'']"
  by (simp add: categorize_keyword_def fallback_def Let_def
      split: option.split pyval.split prod.split sum.split)

lemma categorize_category_valid:
  "py_get (fst (categorize_keyword lm entry n d w)) ''category''
     \<in> set (map PyStr VALID_CATEGORIES)"
  by (simp add: categorize_keyword_def fallback_def Let_def py_get_def dict_get_def
      VALID_CATEGORIES_def
      split: option.split pyval.split prod.split sum.split)

lemma categorize_calls_le:
  "calls (snd (categorize_keyword lm entry n d w)) \<le> calls w + nat n"
  using retry_loop_calls_le[of lm "nat n" d w]
  by (auto simp add: categorize_keyword_def Let_def
      split: option.split pyval.split prod.split sum.split)

lemma categorize_world:
  "map_of entry ''keyword'' = Some (PyStr kw) \<Longrightarrow>
   snd (categorize_keyword lm entry n d w) = snd (retry_loop lm (nat n) d w)"
  by (simp add: categorize_keyword_def Let_def
      split: option.split pyval.split prod.split sum.split)

text \<open>
  Claim C3: with three attempts and an initial delay of 5, a categorization call whose
  attempts all fail sleeps for exactly 5, 10 and 20 time units, 35 = 5 * (2^3 - 1) in
  total, and then returns the sentinel result (category Not Relevant, confidence Low).
\<close>

theorem C3_backoff_geometric:
  assumes "map_of entry ''keyword'' = Some (PyStr kw)"
      and "\<forall>i<3. \<exists>e. lm (calls w + i) = Inl e"
  shows "\<exists>w'. categorize_keyword lm entry 3 5 w =
                 (fallback ''ApiPipe quota exceeded or errors'' (perform_web_search kw), w')
           \<and> py_get (fallback ''ApiPipe quota exceeded or errors'' (perform_web_search kw))
                 ''category'' = PyStr ''Not Relevant''
           \<and> py_get (fallback ''ApiPipe quota exceeded or errors'' (perform_web_search kw))
                 ''confidence'' = PyStr ''Low''
           \<and> calls w' = calls w + 3
           \<and> slept w' = slept w @ [5, 10, 20]
           \<and> sum_list (slept w') - sum_list (slept w) = 5 * (2 ^ 3 - 1)
           \<and> sum_list (slept w') - sum_list (slept w) = 35"
proof -
  have fails: "\<forall>i<nat 3. \<exists>e. lm (calls w + i) = Inl e"
    using assms(2) by simp
  have delays: "map (\<lambda>i. (5::int) * 2 ^ i) [0..<nat 3] = [5, 10, 20]"
    by (simp add: eval_nat_numeral)
  have "categorize_keyword lm entry 3 5 w =
          (fallback ''ApiPipe quota exceeded or errors'' (perform_web_search kw),
           w\<lparr>calls := calls w + nat 3, slept := slept w @ [5, 10, 20]\<rparr>)"
    using categorize_exhausted[OF assms(1) fails, of 5] delays by simp
  then show ?thesis
    by (simp add: fallback_def py_get_def dict_get_def CATEGORY_NOT_RELEVANT_def)
qed

theorem C3_backoff_geometric_witness:
  "\<exists>w'. categorize_keyword (\<lambda>i. Inl ''503 Server Error'')
            [(''keyword'', PyStr ''ssc result''), (''interest'', PyInt 80)] 3 5
            \<lparr>calls = 0, slept = [], ticks = 0\<rparr>
          = (fallback ''ApiPipe quota exceeded or errors''
               (perform_web_search ''ssc result''), w')
       \<and> calls w' = 3 \<and> slept w' = [5, 10, 20] \<and> sum_list (slept w') = 35"
  using C3_backoff_geometric[of "[(''keyword'', PyStr ''ssc result''), (''interest'', PyInt 80)]"
      "''ssc result''" "\<lambda>i. Inl ''503 Server Error''" "\<lparr>calls = 0, slept = [], ticks = 0\<rparr>"]
  by auto

text \<open>
  Claim C7, as the specification states it: a confidence value that is present but
  invalid is coerced to Low. The source only supplies Low for a missing confidence: an
  answer that parses to an object with the confidence "Very High" is returned with
  that confidence.
\<close>

theorem C7_confidence_counterexample:
  "py_get (fst (categorize_keyword
       (\<lambda>i. Inr (PyDict [(''category'', PyStr ''Result''),
                          (''confidence'', PyStr ''Very High''),
                          (''reasoning'', PyStr ''Exam result'')]))
       [(''keyword'', PyStr ''ssc result'')] 3 5 \<lparr>calls = 0, slept = [], ticks = 0\<rparr>))
     ''confidence'' = PyStr ''Very High''
   \<and> PyStr ''Very High'' \<notin> set (map PyStr [''Low'', ''Medium'', ''High''])"
  by (simp add: eval_defs eval_nat_numeral)

text \<open>
  Claim C7, amended: for every entry, \<^const>\<open>categorize_keyword\<close> raises nothing and
  returns a dictionary with the fields category, confidence, reasoning and
  web\_search\_summary, whose category is one of the four names of the taxonomy. When
  the attempts are used up, the category is Not Relevant and the confidence Low. When
  an attempt yields a JSON object, a missing or out-of-taxonomy category becomes Not
  Relevant and a missing confidence becomes Low, while a confidence that is present is
  returned as it is, valid or not. When an attempt yields a value that is not a JSON
  object, the category is Not Relevant and the confidence Low.
\<close>

theorem C7_categorize_typed_result:
  "map fst (fst (categorize_keyword lm entry n d w)) =
     [''category'', ''confidence'', ''reasoning'', ''web_search_summary'']
   \<and> py_get (fst (categorize_keyword lm entry n d w)) ''category''
       \<in> set (map PyStr VALID_CATEGORIES)
   \<and> (map_of entry ''keyword'' = Some (PyStr kw) \<and> 0 \<le> d
        \<and> (\<forall>i<nat n. \<exists>e. lm (calls w + i) = Inl e) \<longrightarrow>
       py_get (fst (categorize_keyword lm entry n d w)) ''category'' = PyStr ''Not Relevant''
       \<and> py_get (fst (categorize_keyword lm entry n d w)) ''confidence'' = PyStr ''Low'')
   \<and> (map_of entry ''keyword'' = Some (PyStr kw) \<and> 0 \<le> d \<and> k < nat n
        \<and> (\<forall>i<k. \<exists>e. lm (calls w + i) = Inl e)
        \<and> lm (calls w + k) = Inr (PyDict result) \<longrightarrow>
       py_get (fst (categorize_keyword lm entry n d w)) ''category'' =
         (case map_of result ''category'' of
            None \<Rightarrow> PyStr ''Not Relevant''
          | Some c \<Rightarrow> if c \<in> set (map PyStr VALID_CATEGORIES) then c
                      else PyStr ''Not Relevant'')
       \<and> py_get (fst (categorize_keyword lm entry n d w)) ''confidence'' =
         (case map_of result ''confidence'' of
            None \<Rightarrow> PyStr ''Low''
          | Some c \<Rightarrow> c))
   \<and> (map_of entry ''keyword'' = Some (PyStr kw) \<and> 0 \<le> d \<and> k < nat n
        \<and> (\<forall>i<k. \<exists>e. lm (calls w + i) = Inl e)
        \<and> lm (calls w + k) = Inr r \<and> (\<forall>result. r \<noteq> PyDict result) \<longrightarrow>
       py_get (fst (categorize_keyword lm entry n d w)) ''category'' = PyStr ''Not Relevant''
       \<and> py_get (fst (categorize_keyword lm entry n d w)) ''confidence'' = PyStr ''Low'')"
proof (intro conjI impI)
  show "map fst (fst (categorize_keyword lm entry n d w)) =
     [''category'', ''confidence'', ''reasoning'', ''web_search_summary'']"
    by (rule categorize_keys)
  show "py_get (fst (categorize_keyword lm entry n d w)) ''category''
       \<in> set (map PyStr VALID_CATEGORIES)"
    by (rule categorize_category_valid)
next
  assume h: "map_of entry ''keyword'' = Some (PyStr kw) \<and> 0 \<le> d
        \<and> (\<forall>i<nat n. \<exists>e. lm (calls w + i) = Inl e)"
  then have eq: "categorize_keyword lm entry n d w =
           (fallback ''ApiPipe quota exceeded or errors'' (perform_web_search kw),
            w\<lparr>calls := calls w + nat n,
              slept := slept w @ map (\<lambda>i. d * 2 ^ i) [0..<nat n]\<rparr>)"
    by (intro categorize_exhausted) simp_all
  show "py_get (fst (categorize_keyword lm entry n d w)) ''category'' = PyStr ''Not Relevant''"
    by (simp add: eq fallback_def py_get_def dict_get_def CATEGORY_NOT_RELEVANT_def)
  show "py_get (fst (categorize_keyword lm entry n d w)) ''confidence'' = PyStr ''Low''"
    by (simp add: eq fallback_def py_get_def dict_get_def)
next
  assume h: "map_of entry ''keyword'' = Some (PyStr kw) \<and> 0 \<le> d \<and> k < nat n
        \<and> (\<forall>i<k. \<exists>e. lm (calls w + i) = Inl e)
        \<and> lm (calls w + k) = Inr (PyDict result)"
  note eq = categorize_parsed[of entry kw k lm w result n d]
  show "py_get (fst (categorize_keyword lm entry n d w)) ''category'' =
         (case map_of result ''category'' of
            None \<Rightarrow> PyStr ''Not Relevant''
          | Some c \<Rightarrow> if c \<in> set (map PyStr VALID_CATEGORIES) then c
                      else PyStr ''Not Relevant'')"
    using h eq
    by (simp add: py_get_def dict_get_def CATEGORY_NOT_RELEVANT_def VALID_CATEGORIES_def
        split: option.split)
  show "py_get (fst (categorize_keyword lm entry n d w)) ''confidence'' =
         (case map_of result ''confidence'' of
            None \<Rightarrow> PyStr ''Low''
          | Some c \<Rightarrow> c)"
    using h eq by (simp add: py_get_def dict_get_def)
next
  assume h: "map_of entry ''keyword'' = Some (PyStr kw) \<and> 0 \<le> d \<and> k < nat n
        \<and> (\<forall>i<k. \<exists>e. lm (calls w + i) = Inl e)
        \<and> lm (calls w + k) = Inr r \<and> (\<forall>result. r \<noteq> PyDict result)"
  note eq = categorize_not_object[of entry kw k lm w r n d]
  show "py_get (fst (categorize_keyword lm entry n d w)) ''category'' = PyStr ''Not Relevant''"
    using h eq by (simp add: fallback_def py_get_def dict_get_def CATEGORY_NOT_RELEVANT_def)
  show "py_get (fst (categorize_keyword lm entry n d w)) ''confidence'' = PyStr ''Low''"
    using h eq by (simp add: fallback_def py_get_def dict_get_def)
qed

theorem C7_categorize_typed_result_witness:
  "py_get (fst (categorize_keyword
       (\<lambda>i. if i = 0 then Inl ''503 Server Error''
             else Inr (PyDict [(''category'', PyStr ''Exam''), (''reasoning'', PyStr ''An exam'')]))
       [(''keyword'', PyStr ''ssc result'')] 3 5 \<lparr>calls = 0, slept = [], ticks = 0\<rparr>))
     ''category'' = PyStr ''Not Relevant''
   \<and> py_get (fst (categorize_keyword
       (\<lambda>i. if i = 0 then Inl ''503 Server Error''
             else Inr (PyDict [(''category'', PyStr ''Exam''), (''reasoning'', PyStr ''An exam'')]))
       [(''keyword'', PyStr ''ssc result'')] 3 5 \<lparr>calls = 0, slept = [], ticks = 0\<rparr>))
     ''confidence'' = PyStr ''Low''"
  using C7_categorize_typed_result[where
      lm = "\<lambda>i. if i = 0 then Inl ''503 Server Error''
             else Inr (PyDict [(''category'', PyStr ''Exam''), (''reasoning'', PyStr ''An exam'')])"
      and entry = "[(''keyword'', PyStr ''ssc result'')]" and n = 3 and d = 5
      and w = "\<lparr>calls = 0, slept = [], ticks = 0\<rparr>" and kw = "''ssc result''" and k = 1
      and result = "[(''category'', PyStr ''Exam''), (''reasoning'', PyStr ''An exam'')]"]
  by (simp add: VALID_CATEGORIES_def settings_defs)

section \<open>Properties of the content generation for one entry\<close>

lemma map_of_dict_set: "map_of (dict_set k v d) k' = (if k' = k then Some v else map_of d k')"
  by (simp add: dict_set_def update_conv')

lemma py_get_dict_set: "py_get (dict_set k v d) k' = (if k' = k then v else py_get d k')"
  by (simp add: py_get_def dict_get_def map_of_dict_set)

lemma generate_slots_calls: "calls (snd (generate_slots lm cts gc w)) = calls w + length cts"
  by (induction cts arbitrary: gc w) (simp_all add: add_delay_openai_def split: sum.split)

lemma generate_slots_ticks: "ticks (snd (generate_slots lm cts gc w)) = ticks w"
  by (induction cts arbitrary: gc w) (simp_all add: add_delay_openai_def split: sum.split)

lemma generate_slots_slept:
  "slept (snd (generate_slots lm cts gc w)) =
     slept w @ concat (map (\<lambda>i. case lm (calls w + i) of Inl e \<Rightarrow> [] | Inr a \<Rightarrow> [1])
                          [0..<length cts])"
proof (induction cts arbitrary: gc w)
  case Nil
  then show ?case by simp
next
  case (Cons ct cts)
  show ?case
    by (cases "lm (calls w)")
       (simp_all add: Cons.IH map_upt_Suc add_delay_openai_def del: upt_Suc)
qed

lemma generate_slots_other:
  "k \<notin> set cts \<Longrightarrow> map_of (fst (generate_slots lm cts gc w)) k = map_of gc k"
  by (induction cts arbitrary: gc w) (auto simp: map_of_dict_set split: sum.split)

lemma generate_slots_slot:
  "distinct cts \<Longrightarrow> i < length cts \<Longrightarrow>
   map_of (fst (generate_slots lm cts gc w)) (cts ! i) =
     Some (case lm (calls w + i) of Inl e \<Rightarrow> error_marker e | Inr a \<Rightarrow> a)"
proof (induction cts arbitrary: gc w i)
  case Nil
  then show ?case by simp
next
  case (Cons ct cts)
  show ?case
  proof (cases i)
    case 0
    from Cons.prems(1) have "ct \<notin> set cts" by simp
    then show ?thesis
      using 0 by (cases "lm (calls w)") (simp_all add: generate_slots_other map_of_dict_set)
  next
    case (Suc j)
    with Cons.prems have j: "j < length cts" and d: "distinct cts" by simp_all
    show ?thesis
      using Suc Cons.IH[OF d j]
      by (cases "lm (calls w)") (simp_all add: add_delay_openai_def)
  qed
qed

lemma generate_slots_nonempty: "gc \<noteq> [] \<Longrightarrow> fst (generate_slots lm cts gc w) \<noteq> []"
proof (induction cts arbitrary: gc w)
  case Nil
  then show ?case by simp
next
  case (Cons ct cts)
  have "dict_set ct v gc \<noteq> []" for v
    using Cons.prems by (cases gc) (auto simp: dict_set_def)
  then show ?case
    by (cases "lm (calls w)") (simp_all add: Cons.IH)
qed

lemma generate_content_skipped:
  assumes "map_of entry ''keyword'' = Some kw"
      and "py_get entry ''status'' \<noteq> PyStr ''Run GPT'' \<or> py_get entry ''category'' = PyStr ''Not Relevant''"
  shows "generate_content_for_keyword lm now entry w = (Inr None, w)"
  using assms
  by (auto simp: generate_content_for_keyword_def STATUS_RUN_GPT_def CATEGORY_NOT_RELEVANT_def)

lemma generate_content_generated:
  assumes "map_of entry ''keyword'' = Some kw"
      and "py_get entry ''status'' = PyStr ''Run GPT''"
      and "py_get entry ''category'' \<noteq> PyStr ''Not Relevant''"
  shows "generate_content_for_keyword lm now entry w =
           (Inr (Some (fst (generate_slots lm content_types
                        [(''keyword'', kw),
                         (''category'', py_get entry ''category''),
                         (''interest_score'', py_get entry ''interest_score''),
                         (''generated_at'', PyStr (now (ticks w)))]
                        (w\<lparr>ticks := Suc (ticks w)\<rparr>)))),
            snd (generate_slots lm content_types
                        [(''keyword'', kw),
                         (''category'', py_get entry ''category''),
                         (''interest_score'', py_get entry ''interest_score''),
                         (''generated_at'', PyStr (now (ticks w)))]
                        (w\<lparr>ticks := Suc (ticks w)\<rparr>)))"
  using assms
  by (simp add: generate_content_for_keyword_def STATUS_RUN_GPT_def CATEGORY_NOT_RELEVANT_def
      get_current_timestamp_def Let_def split: prod.split)

text \<open>
  Claim C2, as the specification states it: the four content-generation requests of an
  entry are retried with backoff like the categorization request. The source attempts
  each of them once: when the first request fails and every later attempt would
  succeed, the failure is recorded at once, four attempts are made for the four content
  types, and the only sleeps are the three one-second delays after the successes.
\<close>

theorem C2_content_no_retry_counterexample:
  "generate_content_for_keyword
     (\<lambda>i. if i = 0 then Inl ''503 Server Error'' else Inr (PyDict [(''title'', PyStr ''T'')]))
     (\<lambda>t. ''2025-01-01 10:00:00'')
     [(''keyword'', PyStr ''ssc result''), (''status'', PyStr ''Run GPT''),
      (''category'', PyStr ''Result'')]
     \<lparr>calls = 0, slept = [], ticks = 0\<rparr>
   = (Inr (Some
        [(''keyword'', PyStr ''ssc result''), (''category'', PyStr ''Result''),
         (''interest_score'', PyNone), (''generated_at'', PyStr ''2025-01-01 10:00:00''),
         (''instagram_post'', PyDict [(''error'', PyStr ''503 Server Error'')]),
         (''blog_article'', PyDict [(''title'', PyStr ''T'')]),
         (''youtube_reel'', PyDict [(''title'', PyStr ''T'')]),
         (''youtube_thumbnail'', PyDict [(''title'', PyStr ''T'')])]),
      \<lparr>calls = 4, slept = [1, 1, 1], ticks = 1\<rparr>)"
  by (simp add: generate_content_for_keyword_def content_types_def error_marker_def eval_defs)

text \<open>
  Claim C2, amended: each categorization request goes through the retry loop of
  \<^const>\<open>categorize_keyword\<close> (called by \<^const>\<open>process_batch\<close> with 3 attempts and an
  initial delay of 5): at most N attempts are made; after each failed attempt the loop
  sleeps for the current delay and doubles it; the first attempt that yields a parsed
  value ends the loop; when all N attempts fail the sentinel result is returned. Each
  of the four content-generation requests of an entry is attempted exactly once: the
  outcome of that one attempt is stored, a failure as an error marker, with no wait
  after a failure and no retry.
\<close>

theorem C2_retry_only_in_categorization:
  "(map_of entry ''keyword'' = Some (PyStr kw) \<and> 0 \<le> d \<longrightarrow>
      calls (snd (categorize_keyword lm entry n d w)) \<le> calls w + nat n
    \<and> (\<forall>k<nat n. (\<forall>i<k. \<exists>e. lm (calls w + i) = Inl e) \<and> (\<exists>r. lm (calls w + k) = Inr r) \<longrightarrow>
          snd (categorize_keyword lm entry n d w) =
            w\<lparr>calls := calls w + k + 1, slept := slept w @ map (\<lambda>i. d * 2 ^ i) [0..<k]\<rparr>)
    \<and> ((\<forall>i<nat n. \<exists>e. lm (calls w + i) = Inl e) \<longrightarrow>
          categorize_keyword lm entry n d w =
            (fallback ''ApiPipe quota exceeded or errors'' (perform_web_search kw),
             w\<lparr>calls := calls w + nat n,
               slept := slept w @ map (\<lambda>i. d * 2 ^ i) [0..<nat n]\<rparr>)))
   \<and> (map_of item ''keyword'' = Some key \<and> py_get item ''status'' = PyStr ''Run GPT''
       \<and> py_get item ''category'' \<noteq> PyStr ''Not Relevant'' \<longrightarrow>
      (\<exists>content w'.
          generate_content_for_keyword lm now item w = (Inr (Some content), w')
        \<and> calls w' = calls w + 4
        \<and> (\<forall>i<4. map_of content (content_types ! i) =
                    Some (case lm (calls w + i) of Inl e \<Rightarrow> error_marker e | Inr a \<Rightarrow> a))
        \<and> slept w' = slept w @
            concat (map (\<lambda>i. case lm (calls w + i) of Inl e \<Rightarrow> [] | Inr a \<Rightarrow> [1]) [0..<4])))"
proof (intro conjI impI)
  assume h: "map_of entry ''keyword'' = Some (PyStr kw) \<and> 0 \<le> d"
  show "calls (snd (categorize_keyword lm entry n d w)) \<le> calls w + nat n"
    by (rule categorize_calls_le)
  show "\<forall>k<nat n. (\<forall>i<k. \<exists>e. lm (calls w + i) = Inl e) \<and> (\<exists>r. lm (calls w + k) = Inr r) \<longrightarrow>
          snd (categorize_keyword lm entry n d w) =
            w\<lparr>calls := calls w + k + 1, slept := slept w @ map (\<lambda>i. d * 2 ^ i) [0..<k]\<rparr>"
  proof (intro allI impI)
    fix k
    assume k: "k < nat n"
      and a: "(\<forall>i<k. \<exists>e. lm (calls w + i) = Inl e) \<and> (\<exists>r. lm (calls w + k) = Inr r)"
    then obtain r where r: "lm (calls w + k) = Inr r" by blast
    from a have f: "\<forall>i<k. \<exists>e. lm (calls w + i) = Inl e" by blast
    from h have d: "0 \<le> d" by simp
    show "snd (categorize_keyword lm entry n d w) =
            w\<lparr>calls := calls w + k + 1, slept := slept w @ map (\<lambda>i. d * 2 ^ i) [0..<k]\<rparr>"
      using h retry_loop_first_success[OF f r k d] by (simp add: categorize_world)
  qed
next
  assume h: "map_of entry ''keyword'' = Some (PyStr kw) \<and> 0 \<le> d"
    and f: "\<forall>i<nat n. \<exists>e. lm (calls w + i) = Inl e"
  from h have kw: "map_of entry ''keyword'' = Some (PyStr kw)" and d: "0 \<le> d"
    by simp_all
  show "categorize_keyword lm entry n d w =
            (fallback ''ApiPipe quota exceeded or errors'' (perform_web_search kw),
             w\<lparr>calls := calls w + nat n,
               slept := slept w @ map (\<lambda>i. d * 2 ^ i) [0..<nat n]\<rparr>)"
    by (rule categorize_exhausted[OF kw f d])
next
  assume h: "map_of item ''keyword'' = Some key \<and> py_get item ''status'' = PyStr ''Run GPT''
       \<and> py_get item ''category'' \<noteq> PyStr ''Not Relevant''"
  let ?gc = "[(''keyword'', key),
              (''category'', py_get item ''category''),
              (''interest_score'', py_get item ''interest_score''),
              (''generated_at'', PyStr (now (ticks w)))]"
  let ?w = "w\<lparr>ticks := Suc (ticks w)\<rparr>"
  have eq: "generate_content_for_keyword lm now item w =
              (Inr (Some (fst (generate_slots lm content_types ?gc ?w))),
               snd (generate_slots lm content_types ?gc ?w))"
    using h by (intro generate_content_generated) simp_all
  have len: "length content_types = 4" and dist: "distinct content_types"
    by (simp_all add: content_types_def)
  have c: "calls (snd (generate_slots lm content_types ?gc ?w)) = calls w + 4"
    by (simp add: generate_slots_calls len)
  have s: "\<forall>i<4. map_of (fst (generate_slots lm content_types ?gc ?w)) (content_types ! i) =
                    Some (case lm (calls w + i) of Inl e \<Rightarrow> error_marker e | Inr a \<Rightarrow> a)"
    using generate_slots_slot[OF dist, of _ lm ?gc ?w] len by simp
  have z: "slept (snd (generate_slots lm content_types ?gc ?w)) = slept w @
            concat (map (\<lambda>i. case lm (calls w + i) of Inl e \<Rightarrow> [] | Inr a \<Rightarrow> [1]) [0..<4])"
    using generate_slots_slept[of lm content_types ?gc ?w] len by simp
  show "\<exists>content w'.
          generate_content_for_keyword lm now item w = (Inr (Some content), w')
        \<and> calls w' = calls w + 4
        \<and> (\<forall>i<4. map_of content (content_types ! i) =
                    Some (case lm (calls w + i) of Inl e \<Rightarrow> error_marker e | Inr a \<Rightarrow> a))
        \<and> slept w' = slept w @
            concat (map (\<lambda>i. case lm (calls w + i) of Inl e \<Rightarrow> [] | Inr a \<Rightarrow> [1]) [0..<4])"
    using eq c s z by blast
qed


theorem C2_retry_only_in_categorization_witness:
  "snd (categorize_keyword
          (\<lambda>i. if i = 0 then Inl ''503 Server Error''
                else Inr (PyDict [(''title'', PyStr ''T'')]))
          [(''keyword'', PyStr ''ssc result'')] 3 5 \<lparr>calls = 0, slept = [], ticks = 0\<rparr>)
     = \<lparr>calls = 2, slept = [5], ticks = 0\<rparr>
   \<and> (\<exists>content w'.
         generate_content_for_keyword
           (\<lambda>i. if i = 0 then Inl ''503 Server Error''
                 else Inr (PyDict [(''title'', PyStr ''T'')]))
           (\<lambda>t. ''2025-01-01 10:00:00'')
           [(''keyword'', PyStr ''ssc result''), (''status'', PyStr ''Run GPT''),
            (''category'', PyStr ''Result'')]
           \<lparr>calls = 0, slept = [], ticks = 0\<rparr> = (Inr (Some content), w')
       \<and> calls w' = 4
       \<and> map_of content ''instagram_post'' = Some (error_marker ''503 Server Error'')
       \<and> slept w' = [1, 1, 1])"
proof -
  let ?lm = "\<lambda>i::nat. if i = 0 then Inl ''503 Server Error''
                else Inr (PyDict [(''title'', PyStr ''T'')]) :: string + pyval"
  let ?w = "\<lparr>calls = 0, slept = [], ticks = 0\<rparr>"
  note t = C2_retry_only_in_categorization[where lm = ?lm
      and entry = "[(''keyword'', PyStr ''ssc result'')]" and kw = "''ssc result''"
      and n = 3 and d = 5 and w = ?w and now = "\<lambda>t. ''2025-01-01 10:00:00''"
      and item = "[(''keyword'', PyStr ''ssc result''), (''status'', PyStr ''Run GPT''),
            (''category'', PyStr ''Result'')]" and key = "PyStr ''ssc result''"]
  have h1: "map_of [(''keyword'', PyStr ''ssc result'')] ''keyword'' = Some (PyStr ''ssc result'')
            \<and> (0::int) \<le> 5"
    by simp
  have h2: "(1::nat) < nat 3" by simp
  have h3: "(\<forall>i<1. \<exists>e. ?lm (calls ?w + i) = Inl e) \<and> (\<exists>r. ?lm (calls ?w + 1) = Inr r)"
    by simp
  from t[THEN conjunct1, THEN mp, OF h1, THEN conjunct2, THEN conjunct1, rule_format, OF h2 h3]
  have a: "snd (categorize_keyword ?lm [(''keyword'', PyStr ''ssc result'')] 3 5 ?w)
             = \<lparr>calls = 2, slept = [5], ticks = 0\<rparr>"
    by simp
  have h4: "map_of [(''keyword'', PyStr ''ssc result''), (''status'', PyStr ''Run GPT''),
            (''category'', PyStr ''Result'')] ''keyword'' = Some (PyStr ''ssc result'')
       \<and> py_get [(''keyword'', PyStr ''ssc result''), (''status'', PyStr ''Run GPT''),
            (''category'', PyStr ''Result'')] ''status'' = PyStr ''Run GPT''
       \<and> py_get [(''keyword'', PyStr ''ssc result''), (''status'', PyStr ''Run GPT''),
            (''category'', PyStr ''Result'')] ''category'' \<noteq> PyStr ''Not Relevant''"
    by (simp add: py_get_def dict_get_def)
  from t[THEN conjunct2, THEN mp, OF h4] obtain content w' where
    b: "generate_content_for_keyword ?lm (\<lambda>t. ''2025-01-01 10:00:00'')
           [(''keyword'', PyStr ''ssc result''), (''status'', PyStr ''Run GPT''),
            (''category'', PyStr ''Result'')] ?w = (Inr (Some content), w')"
    and c: "calls w' = calls ?w + 4"
    and s: "\<forall>i<4. map_of content (content_types ! i) =
                    Some (case ?lm (calls ?w + i) of Inl e \<Rightarrow> error_marker e | Inr a \<Rightarrow> a)"
    and z: "slept w' = slept ?w @
            concat (map (\<lambda>i. case ?lm (calls ?w + i) of Inl e \<Rightarrow> [] | Inr a \<Rightarrow> [1]) [0..<4])"
    by blast
  from s have "map_of content (content_types ! 0) =
                 Some (case ?lm (calls ?w + 0) of Inl e \<Rightarrow> error_marker e | Inr a \<Rightarrow> a)"
    by simp
  then have s0: "map_of content ''instagram_post'' = Some (error_marker ''503 Server Error'')"
    by (simp add: content_types_def)
  have u: "[0..<4] = [0, 1, 2, 3::nat]"
    by code_simp
  from z have z0: "slept w' = [1, 1, 1]"
    unfolding u by simp
  from c have c0: "calls w' = 4" by simp
  from a b c0 s0 z0 show ?thesis by blast
qed

section \<open>Properties of the approval gate\<close>



lemma confidence_order_name:
  "dict_get confidence_order (confidence_name c) dflt = confidence_rank c"
  by (cases c) (simp_all add: confidence_order_def dict_get_def)

lemma confidence_order_unknown:
  "x \<notin> set [''Low'', ''Medium'', ''High''] \<Longrightarrow> dict_get confidence_order x dflt = dflt"
  by (simp add: confidence_order_def dict_get_def)

lemma threshold_rank_zero:
  "(dict_get confidence_order thr (Suc 0) = 0) = (thr = ''Low'')"
  by (simp add: confidence_order_def dict_get_def)

lemma approve_row_string:
  "dict_get row ''ai_confidence'' (PyStr ''Low'') = PyStr s \<Longrightarrow>
   approve_row thr row =
     Inr (if dict_get confidence_order thr 1 \<le> dict_get confidence_order (capitalize s) 0
             \<and> dict_get row ''category'' (PyStr '''') \<noteq> PyStr ''Not Relevant''
          then dict_set ''status'' (PyStr ''Run GPT'') row else row)"
  by (simp add: approve_row_def Let_def)


lemma dict_set_keys: "set (map fst (dict_set k v d)) = insert k (set (map fst d))"
  by (simp add: dict_set_def dom_update)

lemma approve_row_keys:
  assumes "approve_row thr row = Inr row'"
  shows "set (map fst row') \<subseteq> insert ''status'' (set (map fst row))"
proof -
  from assms have "row' = dict_set ''status'' (PyStr ''Run GPT'') row \<or> row' = row"
    by (auto simp: approve_row_def Let_def split: pyval.splits if_splits)
  then show ?thesis
    using dict_set_keys[of "''status''" "PyStr ''Run GPT''" row] by auto
qed

lemma dict_update_keys:
  "set (map fst (dict_update d kvs)) = set (map fst d) \<union> set (map fst kvs)"
proof (induction kvs arbitrary: d)
  case Nil
  then show ?case by (simp add: dict_update_def)
next
  case (Cons kv kvs)
  obtain k v where kv: "kv = (k, v)" by (cases kv)
  have "dict_update d (kv # kvs) = dict_update (dict_set k v d) kvs"
    by (simp add: dict_update_def kv)
  moreover have "set (map fst (dict_set k v d)) = insert k (set (map fst d))"
    by (rule dict_set_keys)
  ultimately show ?case using Cons.IH[of "dict_set k v d"] kv by auto
qed

lemma dict_reader_row_keys: "set (map fst (dict_reader_row fieldnames cells)) \<subseteq> set fieldnames"
proof -
  have "set (map fst (zip fieldnames vs)) \<subseteq> set fieldnames" for vs :: "pyval list"
    by (auto dest: set_zip_leftD)
  then show ?thesis
    unfolding dict_reader_row_def dict_update_keys by simp
qed

text \<open>
  Every row that the gate writes is the result of the loop body on the record of the
  same position.
\<close>

lemma auto_approve_written:
  "i < length (fst (auto_approve fieldnames lines thr)) \<Longrightarrow>
   i < length (dict_reader fieldnames lines)
   \<and> approve_row thr (dict_reader fieldnames lines ! i) =
       Inr (fst (auto_approve fieldnames lines thr) ! i)"
proof (induction lines arbitrary: i)
  case Nil
  then show ?case by simp
next
  case (Cons cells lines)
  show ?case
  proof (cases "cells = []")
    case True
    have dr: "dict_reader fieldnames (cells # lines) = dict_reader fieldnames lines"
      using True by (simp add: dict_reader_def)
    have eq: "auto_approve fieldnames (cells # lines) thr = auto_approve fieldnames lines thr"
      using True by simp
    from Cons.prems show ?thesis
      unfolding dr eq by (rule Cons.IH)
  next
    case False
    show ?thesis
    proof (cases "approve_row thr (dict_reader_row fieldnames cells)")
      case (Inl e)
      with False Cons.prems show ?thesis by simp
    next
      case (Inr row)
      show ?thesis
      proof (cases "writerow fieldnames (has_restkey fieldnames cells) row")
        case (Inl e)
        with False Inr Cons.prems show ?thesis by simp
      next
        case w: (Inr written)
        then have wr: "written = row"
          by (simp add: writerow_def split: if_splits)
        obtain more raised where m: "auto_approve fieldnames lines thr = (more, raised)"
          by (cases "auto_approve fieldnames lines thr")
        have eq: "auto_approve fieldnames (cells # lines) thr = (row # more, raised)"
          using False Inr w wr m by simp
        have dr: "dict_reader fieldnames (cells # lines) =
                    dict_reader_row fieldnames cells # dict_reader fieldnames lines"
          using False by (simp add: dict_reader_def)
        show ?thesis
        proof (cases i)
          case 0
          then show ?thesis unfolding eq dr using Inr by simp
        next
          case (Suc j)
          with Cons.prems eq have "j < length (fst (auto_approve fieldnames lines thr))"
            by (simp add: m)
          from Cons.IH[OF this] show ?thesis
            unfolding eq dr Suc by (simp add: m)
        qed
      qed
    qed
  qed
qed

text \<open>
  The gate reaches the end of a file that has a status column, no line longer than
  the header, and a text in the confidence column of every line.
\<close>

lemma auto_approve_complete:
  assumes "''status'' \<in> set fieldnames"
    and "\<forall>cells\<in>set lines. length cells \<le> length fieldnames"
    and "\<forall>r\<in>set (dict_reader fieldnames lines).
           \<exists>s. dict_get r ''ai_confidence'' (PyStr ''Low'') = PyStr s"
  shows "snd (auto_approve fieldnames lines thr) = None
         \<and> length (fst (auto_approve fieldnames lines thr)) = length (dict_reader fieldnames lines)"
  using assms(2,3)
proof (induction lines)
  case Nil
  then show ?case by (simp add: dict_reader_def)
next
  case (Cons cells lines)
  have ih: "snd (auto_approve fieldnames lines thr) = None
         \<and> length (fst (auto_approve fieldnames lines thr)) = length (dict_reader fieldnames lines)"
    using Cons by (auto simp: dict_reader_def)
  show ?case
  proof (cases "cells = []")
    case True
    have dr: "dict_reader fieldnames (cells # lines) = dict_reader fieldnames lines"
      using True by (simp add: dict_reader_def)
    have eq: "auto_approve fieldnames (cells # lines) thr = auto_approve fieldnames lines thr"
      using True by simp
    from ih show ?thesis
      unfolding dr eq .
  next
    case False
    then have dr: "dict_reader fieldnames (cells # lines) =
                    dict_reader_row fieldnames cells # dict_reader fieldnames lines"
      by (simp add: dict_reader_def)
    with Cons.prems(2) obtain s where
      s: "dict_get (dict_reader_row fieldnames cells) ''ai_confidence'' (PyStr ''Low'') = PyStr s"
      by auto
    from approve_row_string[OF s, of thr] obtain row where
      a: "approve_row thr (dict_reader_row fieldnames cells) = Inr row"
      by simp
    from approve_row_keys[OF a] dict_reader_row_keys[of fieldnames cells] assms(1)
    have "set (map fst row) \<subseteq> set fieldnames"
      by blast
    moreover from Cons.prems(1) have "\<not> has_restkey fieldnames cells"
      by (simp add: has_restkey_def)
    ultimately have w: "writerow fieldnames (has_restkey fieldnames cells) row = Inr row"
      by (simp add: writerow_def)
    obtain more raised where m: "auto_approve fieldnames lines thr = (more, raised)"
      by (cases "auto_approve fieldnames lines thr")
    have eq: "auto_approve fieldnames (cells # lines) thr = (row # more, raised)"
      using False a w m by simp
    from ih show ?thesis unfolding eq dr by (simp add: m)
  qed
qed


lemma list_of_two: "length xs = 2 \<Longrightarrow> xs = [xs ! 0, xs ! 1]"
  by (auto simp: length_Suc_conv numeral_2_eq_2)

lemma list_of_one: "length xs = 1 \<Longrightarrow> xs = [xs ! 0]"
  by (auto simp: length_Suc_conv)




text \<open>
  Claim C10: the approval gate capitalizes the confidence it reads, so that
  \<open>high\<close>, \<open>HIGH\<close> and \<open>hIgh\<close> rank as High: a row that the gate writes, with a
  confidence whose capitalized form is Low, Medium or High, is treated as a row of that
  confidence. A value whose capitalized form is none of the three, the empty string
  among them, ranks 0 as Low does, and a row with such a value is written with the
  status Run GPT only when the threshold is Low and the category is not Not Relevant,
  and is written as it was read otherwise. The rows written are the first rows of the
  file, and all of them when the file has a status column, no line longer than its
  header line, and a text in the confidence column of every line.
\<close>

theorem C10_capitalized_confidence:
  "capitalize ''high'' = ''High'' \<and> capitalize ''HIGH'' = ''High''
   \<and> capitalize ''hIgh'' = ''High''
   \<and> length (fst (auto_approve fieldnames lines thr)) \<le> length (dict_reader fieldnames lines)
   \<and> (\<forall>i<length (fst (auto_approve fieldnames lines (confidence_name t))). \<forall>s c.
        dict_get (dict_reader fieldnames lines ! i) ''ai_confidence'' (PyStr ''Low'') = PyStr s
        \<and> capitalize s = confidence_name c \<longrightarrow>
        fst (auto_approve fieldnames lines (confidence_name t)) ! i =
          (if confidence_rank t \<le> confidence_rank c
              \<and> dict_get (dict_reader fieldnames lines ! i) ''category'' (PyStr '''')
                  \<noteq> PyStr ''Not Relevant''
           then dict_set ''status'' (PyStr ''Run GPT'') (dict_reader fieldnames lines ! i)
           else dict_reader fieldnames lines ! i))
   \<and> (capitalize v \<notin> set [''Low'', ''Medium'', ''High''] \<longrightarrow>
        dict_get confidence_order (capitalize v) 0 = 0
        \<and> dict_get confidence_order (capitalize v) 0 = dict_get confidence_order ''Low'' 0)
   \<and> capitalize '''' \<notin> set [''Low'', ''Medium'', ''High'']
   \<and> (\<forall>i<length (fst (auto_approve fieldnames lines thr)). \<forall>s.
        dict_get (dict_reader fieldnames lines ! i) ''ai_confidence'' (PyStr ''Low'') = PyStr s
        \<and> capitalize s \<notin> set [''Low'', ''Medium'', ''High''] \<longrightarrow>
        fst (auto_approve fieldnames lines thr) ! i =
          (if thr = ''Low''
              \<and> dict_get (dict_reader fieldnames lines ! i) ''category'' (PyStr '''')
                  \<noteq> PyStr ''Not Relevant''
           then dict_set ''status'' (PyStr ''Run GPT'') (dict_reader fieldnames lines ! i)
           else dict_reader fieldnames lines ! i))
   \<and> (''status'' \<in> set fieldnames
       \<and> (\<forall>cells\<in>set lines. length cells \<le> length fieldnames)
       \<and> (\<forall>r\<in>set (dict_reader fieldnames lines).
             \<exists>s. dict_get r ''ai_confidence'' (PyStr ''Low'') = PyStr s) \<longrightarrow>
        snd (auto_approve fieldnames lines thr) = None
        \<and> length (fst (auto_approve fieldnames lines thr)) =
            length (dict_reader fieldnames lines))"
proof (intro conjI allI impI)
  show "capitalize ''high'' = ''High''" "capitalize ''HIGH'' = ''High''"
    "capitalize ''hIgh'' = ''High''"
    by (simp_all add: string_defs)
next
  show "length (fst (auto_approve fieldnames lines thr)) \<le> length (dict_reader fieldnames lines)"
  proof (cases "fst (auto_approve fieldnames lines thr) = []")
    case True
    then show ?thesis by simp
  next
    case False
    then have "length (fst (auto_approve fieldnames lines thr)) - 1
                 < length (fst (auto_approve fieldnames lines thr))"
      by simp
    from auto_approve_written[OF this, THEN conjunct1] show ?thesis by arith
  qed
next
  fix i s c
  assume i: "i < length (fst (auto_approve fieldnames lines (confidence_name t)))"
    and h: "dict_get (dict_reader fieldnames lines ! i) ''ai_confidence'' (PyStr ''Low'') = PyStr s
            \<and> capitalize s = confidence_name c"
  from h have s: "dict_get (dict_reader fieldnames lines ! i) ''ai_confidence'' (PyStr ''Low'')
                    = PyStr s"
    and c: "capitalize s = confidence_name c"
    by simp_all
  from auto_approve_written[OF i]
  have "approve_row (confidence_name t) (dict_reader fieldnames lines ! i) =
          Inr (fst (auto_approve fieldnames lines (confidence_name t)) ! i)"
    by simp
  then show "fst (auto_approve fieldnames lines (confidence_name t)) ! i =
          (if confidence_rank t \<le> confidence_rank c
              \<and> dict_get (dict_reader fieldnames lines ! i) ''category'' (PyStr '''')
                  \<noteq> PyStr ''Not Relevant''
           then dict_set ''status'' (PyStr ''Run GPT'') (dict_reader fieldnames lines ! i)
           else dict_reader fieldnames lines ! i)"
    unfolding approve_row_string[OF s] c confidence_order_name
    by simp
next
  assume u: "capitalize v \<notin> set [''Low'', ''Medium'', ''High'']"
  show "dict_get confidence_order (capitalize v) 0 = 0"
    using u by (rule confidence_order_unknown)
  show "dict_get confidence_order (capitalize v) 0 = dict_get confidence_order ''Low'' 0"
    using confidence_order_unknown[OF u, of 0]
    by (simp add: confidence_order_def dict_get_def)
next
  show "capitalize '''' \<notin> set [''Low'', ''Medium'', ''High'']"
    by (simp add: capitalize_def)
next
  fix i s
  assume i: "i < length (fst (auto_approve fieldnames lines thr))"
    and h: "dict_get (dict_reader fieldnames lines ! i) ''ai_confidence'' (PyStr ''Low'') = PyStr s
            \<and> capitalize s \<notin> set [''Low'', ''Medium'', ''High'']"
  from h have s: "dict_get (dict_reader fieldnames lines ! i) ''ai_confidence'' (PyStr ''Low'')
                    = PyStr s"
    and u: "capitalize s \<notin> set [''Low'', ''Medium'', ''High'']"
    by simp_all
  have z: "dict_get confidence_order (capitalize s) 0 = 0"
    using u by (rule confidence_order_unknown)
  from auto_approve_written[OF i]
  have "approve_row thr (dict_reader fieldnames lines ! i) =
          Inr (fst (auto_approve fieldnames lines thr) ! i)"
    by simp
  then show "fst (auto_approve fieldnames lines thr) ! i =
          (if thr = ''Low''
              \<and> dict_get (dict_reader fieldnames lines ! i) ''category'' (PyStr '''')
                  \<noteq> PyStr ''Not Relevant''
           then dict_set ''status'' (PyStr ''Run GPT'') (dict_reader fieldnames lines ! i)
           else dict_reader fieldnames lines ! i)"
    unfolding approve_row_string[OF s] z
    by (simp add: threshold_rank_zero)
next
  assume "''status'' \<in> set fieldnames
       \<and> (\<forall>cells\<in>set lines. length cells \<le> length fieldnames)
       \<and> (\<forall>r\<in>set (dict_reader fieldnames lines).
             \<exists>s. dict_get r ''ai_confidence'' (PyStr ''Low'') = PyStr s)"
  then have a: "''status'' \<in> set fieldnames"
    and b: "\<forall>cells\<in>set lines. length cells \<le> length fieldnames"
    and c: "\<forall>r\<in>set (dict_reader fieldnames lines).
             \<exists>s. dict_get r ''ai_confidence'' (PyStr ''Low'') = PyStr s"
    by simp_all
  from auto_approve_complete[OF a b c, of thr]
  show "snd (auto_approve fieldnames lines thr) = None"
    and "length (fst (auto_approve fieldnames lines thr)) =
            length (dict_reader fieldnames lines)"
    by simp_all
qed

theorem C10_capitalized_confidence_witness:
  "auto_approve [''category'', ''ai_confidence'', ''status'']
     [[''Result'', ''hIgh'', ''Pending''], [''Result'', '''', ''Pending'']] ''Medium''
   = ([[(''category'', PyStr ''Result''), (''ai_confidence'', PyStr ''hIgh''),
        (''status'', PyStr ''Run GPT'')],
       [(''category'', PyStr ''Result''), (''ai_confidence'', PyStr ''''),
        (''status'', PyStr ''Pending'')]],
      None)
   \<and> auto_approve [''category'', ''ai_confidence'', ''status'']
     [[''Result'', '''', ''Pending'']] ''Low''
   = ([[(''category'', PyStr ''Result''), (''ai_confidence'', PyStr ''''),
        (''status'', PyStr ''Run GPT'')]],
      None)"
proof -
  let ?f = "[''category'', ''ai_confidence'', ''status'']"
  let ?l1 = "[[''Result'', ''hIgh'', ''Pending''], [''Result'', '''', ''Pending'']]"
  let ?l2 = "[[''Result'', '''', ''Pending'']]"
  let ?o1 = "auto_approve ?f ?l1 ''Medium''"
  let ?o2 = "auto_approve ?f ?l2 ''Low''"
  have recs1: "dict_reader ?f ?l1 =
      [[(''category'', PyStr ''Result''), (''ai_confidence'', PyStr ''hIgh''),
        (''status'', PyStr ''Pending'')],
       [(''category'', PyStr ''Result''), (''ai_confidence'', PyStr ''''),
        (''status'', PyStr ''Pending'')]]"
    by (simp add: dict_reader_def dict_reader_row_def dict_update_def dict_set_def)
  have recs2: "dict_reader ?f ?l2 =
      [[(''category'', PyStr ''Result''), (''ai_confidence'', PyStr ''''),
        (''status'', PyStr ''Pending'')]]"
    by (simp add: dict_reader_def dict_reader_row_def dict_update_def dict_set_def)
  have m: "confidence_name Medium = ''Medium''" by simp
  have hi: "capitalize ''hIgh'' = confidence_name High"
    and em: "capitalize '''' \<notin> set [''Low'', ''Medium'', ''High'']"
    by (simp_all add: string_defs)
  note t1 = C10_capitalized_confidence[of ?f ?l1 "''Medium''" Medium "''''"]
  note t2 = C10_capitalized_confidence[of ?f ?l2 "''Low''" Low "''''"]
  have cond1: "''status'' \<in> set ?f
       \<and> (\<forall>cells\<in>set ?l1. length cells \<le> length ?f)
       \<and> (\<forall>r\<in>set (dict_reader ?f ?l1).
             \<exists>s. dict_get r ''ai_confidence'' (PyStr ''Low'') = PyStr s)"
    unfolding recs1 by (simp add: dict_get_def)
  have cond2: "''status'' \<in> set ?f
       \<and> (\<forall>cells\<in>set ?l2. length cells \<le> length ?f)
       \<and> (\<forall>r\<in>set (dict_reader ?f ?l2).
             \<exists>s. dict_get r ''ai_confidence'' (PyStr ''Low'') = PyStr s)"
    unfolding recs2 by (simp add: dict_get_def)
  from t1[THEN conjunct2, THEN conjunct2, THEN conjunct2, THEN conjunct2, THEN conjunct2,
          THEN conjunct2, THEN conjunct2, THEN conjunct2, THEN mp, OF cond1]
  have e1: "snd ?o1 = None" and l1: "length (fst ?o1) = 2"
    unfolding recs1 by (simp_all del: auto_approve.simps)
  from t2[THEN conjunct2, THEN conjunct2, THEN conjunct2, THEN conjunct2, THEN conjunct2,
          THEN conjunct2, THEN conjunct2, THEN conjunct2, THEN mp, OF cond2]
  have e2: "snd ?o2 = None" and l2: "length (fst ?o2) = 1"
    unfolding recs2 by (simp_all del: auto_approve.simps)
  from t1[THEN conjunct2, THEN conjunct2, THEN conjunct2, THEN conjunct2, THEN conjunct1,
          unfolded m, rule_format, of 0 "''hIgh''" High] l1 hi
  have a0: "fst ?o1 ! 0 =
       [(''category'', PyStr ''Result''), (''ai_confidence'', PyStr ''hIgh''),
        (''status'', PyStr ''Run GPT'')]"
    unfolding recs1 by (simp add: dict_get_def dict_set_def del: auto_approve.simps)
  from t1[THEN conjunct2, THEN conjunct2, THEN conjunct2, THEN conjunct2, THEN conjunct2,
          THEN conjunct2, THEN conjunct2, THEN conjunct1, rule_format, of 1 "''''"] l1 em
  have a1: "fst ?o1 ! 1 =
       [(''category'', PyStr ''Result''), (''ai_confidence'', PyStr ''''),
        (''status'', PyStr ''Pending'')]"
    unfolding recs1 by (simp add: dict_get_def del: auto_approve.simps)
  from t2[THEN conjunct2, THEN conjunct2, THEN conjunct2, THEN conjunct2, THEN conjunct2,
          THEN conjunct2, THEN conjunct2, THEN conjunct1, rule_format, of 0 "''''"] l2 em
  have b0: "fst ?o2 ! 0 =
       [(''category'', PyStr ''Result''), (''ai_confidence'', PyStr ''''),
        (''status'', PyStr ''Run GPT'')]"
    unfolding recs2 by (simp add: dict_get_def dict_set_def del: auto_approve.simps)
  have "fst ?o1 = [fst ?o1 ! 0, fst ?o1 ! 1]"
    using l1 by (rule list_of_two)
  with a0 a1 e1 have r1: "?o1 =
     ([[(''category'', PyStr ''Result''), (''ai_confidence'', PyStr ''hIgh''),
        (''status'', PyStr ''Run GPT'')],
       [(''category'', PyStr ''Result''), (''ai_confidence'', PyStr ''''),
        (''status'', PyStr ''Pending'')]], None)"
    by (metis prod.collapse)
  have "fst ?o2 = [fst ?o2 ! 0]"
    using l2 by (rule list_of_one)
  with b0 e2 have r2: "?o2 =
     ([[(''category'', PyStr ''Result''), (''ai_confidence'', PyStr ''''),
        (''status'', PyStr ''Run GPT'')]], None)"
    by (metis prod.collapse)
  from r1 r2 show ?thesis by (intro conjI)
qed

section \<open>Properties of the categorization batch\<close>

lemma py_get_dict_update_status:
  "py_get (dict_update entry
             [(''category'', a), (''ai_confidence'', b), (''ai_reasoning'', c),
              (''web_search_summary'', d), (''categorized_at'', e), (''status'', f)]) k =
     (if k = ''status'' then f
      else if k = ''categorized_at'' then e
      else if k = ''web_search_summary'' then d
      else if k = ''ai_reasoning'' then c
      else if k = ''ai_confidence'' then b
      else if k = ''category'' then a
      else py_get entry k)"
  by (simp add: dict_update_def py_get_dict_set)

lemma process_batch_ok:
  assumes "\<forall>e\<in>set data. map_of e ''keyword'' \<noteq> None"
  shows "\<exists>out w'. process_batch lm now data w = (Inr out, w')
           \<and> length out = length data
           \<and> (\<forall>i<length data. py_get (out ! i) ''status'' = PyStr ''Pending''
                  \<and> py_get (out ! i) ''keyword'' = py_get (data ! i) ''keyword'')"
  using assms
proof (induction data arbitrary: w)
  case Nil
  then show ?case by simp
next
  case (Cons entry rest)
  from Cons.prems obtain kw where kw: "map_of entry ''keyword'' = Some kw"
    by auto
  obtain ai_result w1 where c: "categorize_keyword lm entry 3 5 w = (ai_result, w1)"
    by (cases "categorize_keyword lm entry 3 5 w")
  obtain stamp w2 where t: "get_current_timestamp now w1 = (stamp, w2)"
    by (cases "get_current_timestamp now w1")
  let ?entry = "dict_update entry
                 [(''category'', py_get ai_result ''category''),
                  (''ai_confidence'', py_get ai_result ''confidence''),
                  (''ai_reasoning'', py_get ai_result ''reasoning''),
                  (''web_search_summary'', py_get ai_result ''web_search_summary''),
                  (''categorized_at'', PyStr stamp),
                  (''status'', PyStr STATUS_PENDING)]"
  from Cons.prems have "\<forall>e\<in>set rest. map_of e ''keyword'' \<noteq> None" by simp
  from Cons.IH[OF this, of "add_delay_openai w2"] obtain out w' where
    r: "process_batch lm now rest (add_delay_openai w2) = (Inr out, w')"
    and l: "length out = length rest"
    and s: "\<forall>i<length rest. py_get (out ! i) ''status'' = PyStr ''Pending''
                  \<and> py_get (out ! i) ''keyword'' = py_get (rest ! i) ''keyword''"
    by blast
  have eq: "process_batch lm now (entry # rest) w = (Inr (?entry # out), w')"
    using kw c t r by simp
  have hd: "py_get ?entry ''status'' = PyStr ''Pending''"
    "py_get ?entry ''keyword'' = py_get entry ''keyword''"
    by (simp_all add: py_get_dict_update_status STATUS_PENDING_def)
  have "\<forall>i<length (entry # rest). py_get ((?entry # out) ! i) ''status'' = PyStr ''Pending''
          \<and> py_get ((?entry # out) ! i) ''keyword'' = py_get ((entry # rest) ! i) ''keyword''"
  proof (intro allI impI)
    fix i assume "i < length (entry # rest)"
    then show "py_get ((?entry # out) ! i) ''status'' = PyStr ''Pending''
          \<and> py_get ((?entry # out) ! i) ''keyword'' = py_get ((entry # rest) ! i) ''keyword''"
      using hd s by (cases i) simp_all
  qed
  with eq l show ?case by simp
qed

lemma process_batch_key_error:
  assumes "\<exists>e\<in>set data. map_of e ''keyword'' = None"
  shows "fst (process_batch lm now data w) = Inl (KeyError ''keyword'')"
  using assms
proof (induction data arbitrary: w)
  case Nil
  then show ?case by simp
next
  case (Cons entry rest)
  show ?case
  proof (cases "map_of entry ''keyword''")
    case None
    then show ?thesis by simp
  next
    case (Some kw)
    with Cons.prems have "\<exists>e\<in>set rest. map_of e ''keyword'' = None" by auto
    then have ih: "fst (process_batch lm now rest w') = Inl (KeyError ''keyword'')" for w'
      by (rule Cons.IH)
    obtain ai_result w1 where c: "categorize_keyword lm entry 3 5 w = (ai_result, w1)"
      by (cases "categorize_keyword lm entry 3 5 w")
    obtain stamp w2 where t: "get_current_timestamp now w1 = (stamp, w2)"
      by (cases "get_current_timestamp now w1")
    obtain w4 where r: "process_batch lm now rest (add_delay_openai w2) =
                          (Inl (KeyError ''keyword''), w4)"
      using ih[of "add_delay_openai w2"] by (metis prod.collapse)
    show ?thesis
      using Some c t r by simp
  qed
qed


lemma map_of_dict_update_other:
  "k \<notin> {''category'', ''ai_confidence'', ''ai_reasoning'', ''web_search_summary'',
          ''categorized_at'', ''status''} \<Longrightarrow>
   map_of (dict_update entry
             [(''category'', a), (''ai_confidence'', b), (''ai_reasoning'', c),
              (''web_search_summary'', d), (''categorized_at'', e), (''status'', f)]) k =
     map_of entry k"
  by (simp add: dict_update_def map_of_dict_set)

lemma process_batch_entries:
  assumes "\<forall>e\<in>set data. map_of e ''keyword'' \<noteq> None"
  shows "\<exists>out w'. process_batch lm now data w = (Inr out, w')
           \<and> length out = length data
           \<and> (\<forall>i<length data. \<exists>cat conf reason summary stamp.
                  out ! i = dict_update (data ! i)
                    [(''category'', cat), (''ai_confidence'', conf), (''ai_reasoning'', reason),
                     (''web_search_summary'', summary), (''categorized_at'', PyStr stamp),
                     (''status'', PyStr ''Pending'')])"
  using assms
proof (induction data arbitrary: w)
  case Nil
  then show ?case by simp
next
  case (Cons entry rest)
  from Cons.prems obtain kw where kw: "map_of entry ''keyword'' = Some kw"
    by auto
  obtain ai_result w1 where c: "categorize_keyword lm entry 3 5 w = (ai_result, w1)"
    by (cases "categorize_keyword lm entry 3 5 w")
  obtain stamp w2 where t: "get_current_timestamp now w1 = (stamp, w2)"
    by (cases "get_current_timestamp now w1")
  let ?entry = "dict_update entry
                 [(''category'', py_get ai_result ''category''),
                  (''ai_confidence'', py_get ai_result ''confidence''),
                  (''ai_reasoning'', py_get ai_result ''reasoning''),
                  (''web_search_summary'', py_get ai_result ''web_search_summary''),
                  (''categorized_at'', PyStr stamp),
                  (''status'', PyStr ''Pending'')]"
  from Cons.prems have "\<forall>e\<in>set rest. map_of e ''keyword'' \<noteq> None" by simp
  from Cons.IH[OF this, of "add_delay_openai w2"] obtain out w' where
    r: "process_batch lm now rest (add_delay_openai w2) = (Inr out, w')"
    and l: "length out = length rest"
    and s: "\<forall>i<length rest. \<exists>cat conf reason summary stamp.
                  out ! i = dict_update (rest ! i)
                    [(''category'', cat), (''ai_confidence'', conf), (''ai_reasoning'', reason),
                     (''web_search_summary'', summary), (''categorized_at'', PyStr stamp),
                     (''status'', PyStr ''Pending'')]"
    by blast
  have eq: "process_batch lm now (entry # rest) w = (Inr (?entry # out), w')"
    using kw c t r by (simp add: STATUS_PENDING_def)
  have "\<forall>i<length (entry # rest). \<exists>cat conf reason summary stamp.
          (?entry # out) ! i = dict_update ((entry # rest) ! i)
            [(''category'', cat), (''ai_confidence'', conf), (''ai_reasoning'', reason),
             (''web_search_summary'', summary), (''categorized_at'', PyStr stamp),
             (''status'', PyStr ''Pending'')]"
  proof (intro allI impI)
    fix i assume i: "i < length (entry # rest)"
    show "\<exists>cat conf reason summary stamp.
          (?entry # out) ! i = dict_update ((entry # rest) ! i)
            [(''category'', cat), (''ai_confidence'', conf), (''ai_reasoning'', reason),
             (''web_search_summary'', summary), (''categorized_at'', PyStr stamp),
             (''status'', PyStr ''Pending'')]"
    proof (cases i)
      case 0
      have "(?entry # out) ! 0 = dict_update ((entry # rest) ! 0)
                 [(''category'', py_get ai_result ''category''),
                  (''ai_confidence'', py_get ai_result ''confidence''),
                  (''ai_reasoning'', py_get ai_result ''reasoning''),
                  (''web_search_summary'', py_get ai_result ''web_search_summary''),
                  (''categorized_at'', PyStr stamp),
                  (''status'', PyStr ''Pending'')]"
        by simp
      then show ?thesis unfolding 0 by blast
    next
      case (Suc j)
      with i have "j < length rest" by simp
      with s Suc show ?thesis by simp
    qed
  qed
  with eq l show ?case by simp
qed

text \<open>
  Claim C9, as the specification states it: a stage that attempts an invalid status
  transition signals an \<^verbatim>\<open>InvalidTransitionError\<close> instead of overwriting the
  status. The source has no such check: the categorization batch, given an entry whose
  status is Published, returns normally with the status overwritten by Pending.
\<close>

theorem C9_silent_overwrite_counterexample:
  "process_batch
     (\<lambda>i. Inr (PyDict [(''category'', PyStr ''Result''), (''confidence'', PyStr ''High''),
                        (''reasoning'', PyStr ''Exam result'')]))
     (\<lambda>t. ''2025-01-01 10:00:00'')
     [[(''keyword'', PyStr ''ssc result''), (''status'', PyStr ''Published'')]]
     \<lparr>calls = 0, slept = [], ticks = 0\<rparr>
   = (Inr [[(''keyword'', PyStr ''ssc result''), (''status'', PyStr ''Pending''),
            (''category'', PyStr ''Result''), (''ai_confidence'', PyStr ''High''),
            (''ai_reasoning'', PyStr ''Exam result''),
            (''web_search_summary'',
             PyStr ''Found result indicator in keyword; Found government/education context''),
            (''categorized_at'', PyStr ''2025-01-01 10:00:00'')]],
      \<lparr>calls = 1, slept = [1], ticks = 1\<rparr>)
   \<and> \<not> is_valid_transition Published Pending"
  by (simp add: eval_defs is_valid_transition_def eval_nat_numeral)

text \<open>
  Claim C9, amended: the categorization batch does not check the transition that it
  makes. When every entry has a keyword field it returns every entry, in order, updated
  with the five fields of the categorization and with the status Pending, whatever the
  status of the entry was before, and with every other field as it was. The only
  exception it lets out is the \<^verbatim>\<open>KeyError\<close> of an entry without a keyword field,
  which aborts the whole batch and not the single entry.
\<close>

theorem C9_batch_overwrites_status:
  "((\<forall>e\<in>set data. map_of e ''keyword'' \<noteq> None) \<longrightarrow>
      (\<exists>out w'. process_batch lm now data w = (Inr out, w')
         \<and> length out = length data
         \<and> (\<forall>i<length data.
              (\<exists>cat conf reason summary stamp.
                 out ! i = dict_update (data ! i)
                   [(''category'', cat), (''ai_confidence'', conf), (''ai_reasoning'', reason),
                    (''web_search_summary'', summary), (''categorized_at'', PyStr stamp),
                    (''status'', PyStr ''Pending'')])
              \<and> py_get (out ! i) ''status'' = PyStr ''Pending''
              \<and> (\<forall>k. k \<notin> {''category'', ''ai_confidence'', ''ai_reasoning'',
                            ''web_search_summary'', ''categorized_at'', ''status''} \<longrightarrow>
                     map_of (out ! i) k = map_of (data ! i) k))))
   \<and> ((\<exists>e\<in>set data. map_of e ''keyword'' = None) \<longrightarrow>
        fst (process_batch lm now data w) = Inl (KeyError ''keyword''))"
proof (intro conjI impI)
  assume "\<forall>e\<in>set data. map_of e ''keyword'' \<noteq> None"
  from process_batch_entries[OF this, of lm now w] obtain out w' where
    r: "process_batch lm now data w = (Inr out, w')"
    and l: "length out = length data"
    and s: "\<forall>i<length data. \<exists>cat conf reason summary stamp.
                  out ! i = dict_update (data ! i)
                    [(''category'', cat), (''ai_confidence'', conf), (''ai_reasoning'', reason),
                     (''web_search_summary'', summary), (''categorized_at'', PyStr stamp),
                     (''status'', PyStr ''Pending'')]"
    by (elim exE conjE)
  have all: "\<forall>i<length data.
              (\<exists>cat conf reason summary stamp.
                 out ! i = dict_update (data ! i)
                   [(''category'', cat), (''ai_confidence'', conf), (''ai_reasoning'', reason),
                    (''web_search_summary'', summary), (''categorized_at'', PyStr stamp),
                    (''status'', PyStr ''Pending'')])
              \<and> py_get (out ! i) ''status'' = PyStr ''Pending''
              \<and> (\<forall>k. k \<notin> {''category'', ''ai_confidence'', ''ai_reasoning'',
                            ''web_search_summary'', ''categorized_at'', ''status''} \<longrightarrow>
                     map_of (out ! i) k = map_of (data ! i) k)"
  proof (intro allI impI)
    fix i assume "i < length data"
    with s have ex: "\<exists>cat conf reason summary stamp.
                  out ! i = dict_update (data ! i)
                    [(''category'', cat), (''ai_confidence'', conf), (''ai_reasoning'', reason),
                     (''web_search_summary'', summary), (''categorized_at'', PyStr stamp),
                     (''status'', PyStr ''Pending'')]"
      by simp
    then obtain cat conf reason summary stamp where
      o: "out ! i = dict_update (data ! i)
                    [(''category'', cat), (''ai_confidence'', conf), (''ai_reasoning'', reason),
                     (''web_search_summary'', summary), (''categorized_at'', PyStr stamp),
                     (''status'', PyStr ''Pending'')]"
      by (elim exE)
    have st: "py_get (out ! i) ''status'' = PyStr ''Pending''"
      unfolding o by (simp add: py_get_dict_update_status)
    have ot: "\<forall>k. k \<notin> {''category'', ''ai_confidence'', ''ai_reasoning'',
                            ''web_search_summary'', ''categorized_at'', ''status''} \<longrightarrow>
                     map_of (out ! i) k = map_of (data ! i) k"
      unfolding o by (intro allI impI) (rule map_of_dict_update_other)
    from ex st ot show "(\<exists>cat conf reason summary stamp.
                 out ! i = dict_update (data ! i)
                   [(''category'', cat), (''ai_confidence'', conf), (''ai_reasoning'', reason),
                    (''web_search_summary'', summary), (''categorized_at'', PyStr stamp),
                    (''status'', PyStr ''Pending'')])
              \<and> py_get (out ! i) ''status'' = PyStr ''Pending''
              \<and> (\<forall>k. k \<notin> {''category'', ''ai_confidence'', ''ai_reasoning'',
                            ''web_search_summary'', ''categorized_at'', ''status''} \<longrightarrow>
                     map_of (out ! i) k = map_of (data ! i) k)"
      by (intro conjI)
  qed
  from r l all show "\<exists>out w'. process_batch lm now data w = (Inr out, w')
         \<and> length out = length data
         \<and> (\<forall>i<length data.
              (\<exists>cat conf reason summary stamp.
                 out ! i = dict_update (data ! i)
                   [(''category'', cat), (''ai_confidence'', conf), (''ai_reasoning'', reason),
                    (''web_search_summary'', summary), (''categorized_at'', PyStr stamp),
                    (''status'', PyStr ''Pending'')])
              \<and> py_get (out ! i) ''status'' = PyStr ''Pending''
              \<and> (\<forall>k. k \<notin> {''category'', ''ai_confidence'', ''ai_reasoning'',
                            ''web_search_summary'', ''categorized_at'', ''status''} \<longrightarrow>
                     map_of (out ! i) k = map_of (data ! i) k))"
    by (intro exI[of _ out] exI[of _ w'] conjI)
next
  assume "\<exists>e\<in>set data. map_of e ''keyword'' = None"
  then show "fst (process_batch lm now data w) = Inl (KeyError ''keyword'')"
    by (rule process_batch_key_error)
qed

theorem C9_batch_overwrites_status_witness:
  "(\<exists>out w'.
      process_batch (\<lambda>i. Inl ''503 Server Error'') (\<lambda>t. ''2025-01-01 10:00:00'')
        [[(''keyword'', PyStr ''ssc result''), (''status'', PyStr ''Content Generated'')],
         [(''keyword'', PyStr ''neet result''), (''status'', PyStr ''Run GPT'')]]
        \<lparr>calls = 0, slept = [], ticks = 0\<rparr> = (Inr out, w')
    \<and> length out = 2
    \<and> py_get (out ! 0) ''status'' = PyStr ''Pending''
    \<and> py_get (out ! 1) ''status'' = PyStr ''Pending''
    \<and> map_of (out ! 0) ''keyword'' = Some (PyStr ''ssc result'')
    \<and> map_of (out ! 1) ''keyword'' = Some (PyStr ''neet result''))
   \<and> fst (process_batch (\<lambda>i. Inl ''503 Server Error'') (\<lambda>t. ''2025-01-01 10:00:00'')
        [[(''keyword'', PyStr ''ssc result''), (''status'', PyStr ''Content Generated'')],
         [(''status'', PyStr ''Run GPT'')]]
        \<lparr>calls = 0, slept = [], ticks = 0\<rparr>) = Inl (KeyError ''keyword'')"
proof -
  let ?data = "[[(''keyword'', PyStr ''ssc result''), (''status'', PyStr ''Content Generated'')],
         [(''keyword'', PyStr ''neet result''), (''status'', PyStr ''Run GPT'')]]"
  have a: "\<forall>e\<in>set ?data. map_of e ''keyword'' \<noteq> None"
    by simp
  have b: "\<exists>e\<in>set [[(''keyword'', PyStr ''ssc result''), (''status'', PyStr ''Content Generated'')],
         [(''status'', PyStr ''Run GPT'')]]. map_of e ''keyword'' = None"
    by simp
  from C9_batch_overwrites_status[THEN conjunct1, THEN mp, OF a,
      of "\<lambda>i. Inl ''503 Server Error''" "\<lambda>t. ''2025-01-01 10:00:00''"
         "\<lparr>calls = 0, slept = [], ticks = 0\<rparr>"]
  obtain out w' where
    r: "process_batch (\<lambda>i. Inl ''503 Server Error'') (\<lambda>t. ''2025-01-01 10:00:00'')
        ?data \<lparr>calls = 0, slept = [], ticks = 0\<rparr> = (Inr out, w')"
    and l0: "length out = length ?data"
    and s: "\<forall>i<length ?data.
              (\<exists>cat conf reason summary stamp.
                 out ! i = dict_update (?data ! i)
                   [(''category'', cat), (''ai_confidence'', conf), (''ai_reasoning'', reason),
                    (''web_search_summary'', summary), (''categorized_at'', PyStr stamp),
                    (''status'', PyStr ''Pending'')])
              \<and> py_get (out ! i) ''status'' = PyStr ''Pending''
              \<and> (\<forall>k. k \<notin> {''category'', ''ai_confidence'', ''ai_reasoning'',
                            ''web_search_summary'', ''categorized_at'', ''status''} \<longrightarrow>
                     map_of (out ! i) k = map_of (?data ! i) k)"
    by (elim exE conjE)
  from l0 have l: "length out = 2" by simp
  have i0: "0 < length ?data" and i1: "1 < length ?data" by simp_all
  from s[rule_format, OF i0] have s0: "py_get (out ! 0) ''status'' = PyStr ''Pending''"
    "map_of (out ! 0) ''keyword'' = Some (PyStr ''ssc result'')"
    by simp_all
  from s[rule_format, OF i1] have s1: "py_get (out ! 1) ''status'' = PyStr ''Pending''"
    "map_of (out ! 1) ''keyword'' = Some (PyStr ''neet result'')"
    by simp_all
  from r l s0 s1 have first: "\<exists>out w'.
      process_batch (\<lambda>i. Inl ''503 Server Error'') (\<lambda>t. ''2025-01-01 10:00:00'')
        ?data \<lparr>calls = 0, slept = [], ticks = 0\<rparr> = (Inr out, w')
    \<and> length out = 2
    \<and> py_get (out ! 0) ''status'' = PyStr ''Pending''
    \<and> py_get (out ! 1) ''status'' = PyStr ''Pending''
    \<and> map_of (out ! 0) ''keyword'' = Some (PyStr ''ssc result'')
    \<and> map_of (out ! 1) ''keyword'' = Some (PyStr ''neet result'')"
    by blast
  from C9_batch_overwrites_status[THEN conjunct2, THEN mp, OF b,
      of "\<lambda>i. Inl ''503 Server Error''" "\<lambda>t. ''2025-01-01 10:00:00''"
         "\<lparr>calls = 0, slept = [], ticks = 0\<rparr>"] first
  show ?thesis by blast
qed

section \<open>Properties of the content generation for a batch\<close>

lemma generate_content_cases:
  assumes "map_of entry ''keyword'' = Some kw"
  shows "\<exists>content w'. generate_content_for_keyword lm now entry w = (Inr content, w')
           \<and> (if approved_relevant entry
                then \<exists>c. content = Some c \<and> c \<noteq> [] \<and> map_of c ''keyword'' = Some kw
                else content = None)"
proof (cases "approved_relevant entry")
  case True
  then have s: "py_get entry ''status'' = PyStr ''Run GPT''"
    and c: "py_get entry ''category'' \<noteq> PyStr ''Not Relevant''"
    by (simp_all add: approved_relevant_def)
  let ?gc = "[(''keyword'', kw),
              (''category'', py_get entry ''category''),
              (''interest_score'', py_get entry ''interest_score''),
              (''generated_at'', PyStr (now (ticks w)))]"
  let ?w = "w\<lparr>ticks := Suc (ticks w)\<rparr>"
  have "''keyword'' \<notin> set content_types"
    by (simp add: content_types_def)
  then have "map_of (fst (generate_slots lm content_types ?gc ?w)) ''keyword'' = Some kw"
    by (simp add: generate_slots_other)
  moreover have "fst (generate_slots lm content_types ?gc ?w) \<noteq> []"
    by (rule generate_slots_nonempty) simp
  ultimately show ?thesis
    using True generate_content_generated[OF assms s c, of lm now w] by simp
next
  case False
  then have "py_get entry ''status'' \<noteq> PyStr ''Run GPT''
      \<or> py_get entry ''category'' = PyStr ''Not Relevant''"
    by (simp add: approved_relevant_def)
  from generate_content_skipped[OF assms this, of lm now w] False show ?thesis
    by simp
qed

lemma generate_all_ok:
  assumes "\<forall>e\<in>set es. map_of e ''keyword'' \<noteq> None"
  shows "\<exists>gen w'. generate_all lm now es w = (Inr gen, w')
           \<and> map (\<lambda>c. map_of c ''keyword'') gen =
               map (\<lambda>e. map_of e ''keyword'') (filter approved_relevant es)"
  using assms
proof (induction es arbitrary: w)
  case Nil
  then show ?case by simp
next
  case (Cons entry rest)
  from Cons.prems obtain kw where kw: "map_of entry ''keyword'' = Some kw"
    by auto
  from generate_content_cases[OF kw, of lm now w] obtain content w1 where
    g: "generate_content_for_keyword lm now entry w = (Inr content, w1)"
    and sh: "if approved_relevant entry
                then \<exists>c. content = Some c \<and> c \<noteq> [] \<and> map_of c ''keyword'' = Some kw
                else content = None"
    by blast
  from Cons.prems have "\<forall>e\<in>set rest. map_of e ''keyword'' \<noteq> None" by simp
  from Cons.IH[OF this, of w1] obtain gen w2 where
    r: "generate_all lm now rest w1 = (Inr gen, w2)"
    and m: "map (\<lambda>c. map_of c ''keyword'') gen =
               map (\<lambda>e. map_of e ''keyword'') (filter approved_relevant rest)"
    by blast
  show ?case
  proof (cases "approved_relevant entry")
    case True
    with sh obtain c where c: "content = Some c" "c \<noteq> []" "map_of c ''keyword'' = Some kw"
      by auto
    have "generate_all lm now (entry # rest) w = (Inr (c # gen), w2)"
      using kw g r c by simp
    then show ?thesis
      using True m c kw by simp
  next
    case False
    with sh have "content = None" by simp
    then have "generate_all lm now (entry # rest) w = (Inr gen, w2)"
      using kw g r by simp
    then show ?thesis
      using False m by simp
  qed
qed

lemma filter_approved_relevant:
  "filter approved_relevant (filter (\<lambda>e. py_get e ''status'' = PyStr STATUS_RUN_GPT) data) =
     filter approved_relevant data"
  by (induction data) (auto simp: approved_relevant_def STATUS_RUN_GPT_def)

lemma process_approved_entries_ok:
  assumes "\<forall>e\<in>set data. map_of e ''keyword'' \<noteq> None"
  shows "\<exists>gen w'. process_approved_entries lm now data w = (Inr gen, w')
           \<and> map (\<lambda>c. map_of c ''keyword'') gen =
               map (\<lambda>e. map_of e ''keyword'') (filter approved_relevant data)"
proof (cases "filter (\<lambda>e. py_get e ''status'' = PyStr STATUS_RUN_GPT) data = []")
  case True
  then have "filter approved_relevant data = []"
    using filter_approved_relevant[of data] by simp
  with True show ?thesis
    by (simp add: process_approved_entries_def)
next
  case False
  have "\<forall>e\<in>set (filter (\<lambda>e. py_get e ''status'' = PyStr STATUS_RUN_GPT) data).
          map_of e ''keyword'' \<noteq> None"
    using assms by simp
  from generate_all_ok[OF this, of lm now w] obtain gen w' where
    g: "generate_all lm now (filter (\<lambda>e. py_get e ''status'' = PyStr STATUS_RUN_GPT) data) w =
          (Inr gen, w')"
    and m: "map (\<lambda>c. map_of c ''keyword'') gen =
            map (\<lambda>e. map_of e ''keyword'')
              (filter approved_relevant
                (filter (\<lambda>e. py_get e ''status'' = PyStr STATUS_RUN_GPT) data))"
    by blast
  have "process_approved_entries lm now data w = (Inr gen, w')"
    using False g by (simp add: process_approved_entries_def Let_def)
  moreover have "map (\<lambda>c. map_of c ''keyword'') gen =
            map (\<lambda>e. map_of e ''keyword'') (filter approved_relevant data)"
    using m unfolding filter_approved_relevant .
  ultimately show ?thesis by blast
qed

lemma content_map_keys_strings:
  assumes "\<forall>c\<in>set gen. \<exists>k. map_of c ''keyword'' = Some (PyStr k)"
  shows "content_map_keys gen = Inr (map (\<lambda>c. py_get c ''keyword'') gen)"
  using assms
proof (induction gen)
  case Nil
  then show ?case by simp
next
  case (Cons c gen)
  then obtain k where "map_of c ''keyword'' = Some (PyStr k)" by auto
  with Cons show ?case
    by (simp add: py_get_def dict_get_def)
qed

lemma update_entry_status:
  assumes "map_of entry ''keyword'' = Some (PyStr k)"
  shows "\<exists>entry' w'. update_entry now content_keys entry w = (Inr entry', w')
           \<and> py_get entry' ''status'' =
               (if PyStr k \<in> set content_keys
                then (if py_get entry ''category'' = PyStr ''Not Relevant''
                      then PyStr ''Not Relevant'' else PyStr ''Content Generated'')
                else py_get entry ''status'')"
  using assms
  by (simp add: update_entry_def Let_def get_current_timestamp_def py_get_dict_set
      CATEGORY_NOT_RELEVANT_def)

lemma update_entries_status:
  assumes "\<forall>e\<in>set es. \<exists>k. map_of e ''keyword'' = Some (PyStr k)"
  shows "\<exists>out w'. update_entries now content_keys es w = (Inr out, w')
           \<and> length out = length es
           \<and> (\<forall>i<length es. py_get (out ! i) ''status'' =
                 (if py_get (es ! i) ''keyword'' \<in> set content_keys
                  then (if py_get (es ! i) ''category'' = PyStr ''Not Relevant''
                        then PyStr ''Not Relevant'' else PyStr ''Content Generated'')
                  else py_get (es ! i) ''status''))"
  using assms
proof (induction es arbitrary: w)
  case Nil
  then show ?case by simp
next
  case (Cons entry rest)
  from Cons.prems obtain k where k: "map_of entry ''keyword'' = Some (PyStr k)"
    by auto
  then have pk: "py_get entry ''keyword'' = PyStr k"
    by (simp add: py_get_def dict_get_def)
  from update_entry_status[OF k, of now content_keys w] obtain entry' w1 where
    u: "update_entry now content_keys entry w = (Inr entry', w1)"
    and st: "py_get entry' ''status'' =
               (if PyStr k \<in> set content_keys
                then (if py_get entry ''category'' = PyStr ''Not Relevant''
                      then PyStr ''Not Relevant'' else PyStr ''Content Generated'')
                else py_get entry ''status'')"
    by blast
  from Cons.prems have "\<forall>e\<in>set rest. \<exists>k. map_of e ''keyword'' = Some (PyStr k)" by simp
  from Cons.IH[OF this, of w1] obtain out w2 where
    r: "update_entries now content_keys rest w1 = (Inr out, w2)"
    and l: "length out = length rest"
    and s: "\<forall>i<length rest. py_get (out ! i) ''status'' =
                 (if py_get (rest ! i) ''keyword'' \<in> set content_keys
                  then (if py_get (rest ! i) ''category'' = PyStr ''Not Relevant''
                        then PyStr ''Not Relevant'' else PyStr ''Content Generated'')
                  else py_get (rest ! i) ''status'')"
    by blast
  have eq: "update_entries now content_keys (entry # rest) w = (Inr (entry' # out), w2)"
    using u r by simp
  have "\<forall>i<length (entry # rest). py_get ((entry' # out) ! i) ''status'' =
                 (if py_get ((entry # rest) ! i) ''keyword'' \<in> set content_keys
                  then (if py_get ((entry # rest) ! i) ''category'' = PyStr ''Not Relevant''
                        then PyStr ''Not Relevant'' else PyStr ''Content Generated'')
                  else py_get ((entry # rest) ! i) ''status'')"
  proof (intro allI impI)
    fix i assume "i < length (entry # rest)"
    then show "py_get ((entry' # out) ! i) ''status'' =
                 (if py_get ((entry # rest) ! i) ''keyword'' \<in> set content_keys
                  then (if py_get ((entry # rest) ! i) ''category'' = PyStr ''Not Relevant''
                        then PyStr ''Not Relevant'' else PyStr ''Content Generated'')
                  else py_get ((entry # rest) ! i) ''status'')"
      using st pk s by (cases i) simp_all
  qed
  with eq l show ?case by simp
qed

lemma content_pass:
  assumes "\<forall>e\<in>set data. \<exists>k. map_of e ''keyword'' = Some (PyStr k)"
  shows "\<exists>gen w1 out w2.
           process_approved_entries lm now data w = (Inr gen, w1)
         \<and> update_original_data_with_content_links now data gen w1 = (Inr out, w2)
         \<and> length out = length data
         \<and> (\<forall>i<length data. py_get (out ! i) ''status'' =
               (if py_get (data ! i) ''keyword''
                     \<in> (\<lambda>e. py_get e ''keyword'') ` {e \<in> set data. approved_relevant e}
                then (if py_get (data ! i) ''category'' = PyStr ''Not Relevant''
                      then PyStr ''Not Relevant'' else PyStr ''Content Generated'')
                else py_get (data ! i) ''status''))"
proof -
  have present: "\<forall>e\<in>set data. map_of e ''keyword'' \<noteq> None"
    using assms by auto
  from process_approved_entries_ok[OF present, of lm now w] obtain gen w1 where
    p: "process_approved_entries lm now data w = (Inr gen, w1)"
    and m: "map (\<lambda>c. map_of c ''keyword'') gen =
               map (\<lambda>e. map_of e ''keyword'') (filter approved_relevant data)"
    by blast
  have keys_of: "(\<lambda>c. map_of c ''keyword'') ` set gen =
                 (\<lambda>e. map_of e ''keyword'') ` {e \<in> set data. approved_relevant e}"
  proof -
    have "set (map (\<lambda>c. map_of c ''keyword'') gen) =
          set (map (\<lambda>e. map_of e ''keyword'') (filter approved_relevant data))"
      by (simp only: m)
    then show ?thesis by simp
  qed
  have strs: "\<forall>c\<in>set gen. \<exists>k. map_of c ''keyword'' = Some (PyStr k)"
  proof
    fix c assume "c \<in> set gen"
    then have "map_of c ''keyword'' \<in> (\<lambda>e. map_of e ''keyword'') ` {e \<in> set data. approved_relevant e}"
      using keys_of by blast
    then obtain e where "e \<in> set data" "map_of c ''keyword'' = map_of e ''keyword''"
      by auto
    with assms show "\<exists>k. map_of c ''keyword'' = Some (PyStr k)"
      by auto
  qed
  have pm: "map (\<lambda>c. py_get c ''keyword'') gen =
            map (\<lambda>e. py_get e ''keyword'') (filter approved_relevant data)"
  proof -
    have "map (\<lambda>c. py_get c ''keyword'') gen =
          map (\<lambda>v. case v of None \<Rightarrow> PyNone | Some x \<Rightarrow> x) (map (\<lambda>c. map_of c ''keyword'') gen)"
      by (simp add: py_get_def dict_get_def comp_def)
    also have "\<dots> = map (\<lambda>v. case v of None \<Rightarrow> PyNone | Some x \<Rightarrow> x)
                       (map (\<lambda>e. map_of e ''keyword'') (filter approved_relevant data))"
      by (simp only: m)
    also have "\<dots> = map (\<lambda>e. py_get e ''keyword'') (filter approved_relevant data)"
      by (simp add: py_get_def dict_get_def comp_def)
    finally show ?thesis .
  qed
  have ks: "set (map (\<lambda>c. py_get c ''keyword'') gen) =
            (\<lambda>e. py_get e ''keyword'') ` {e \<in> set data. approved_relevant e}"
    by (simp add: pm)
  from update_entries_status[OF assms, of now "map (\<lambda>c. py_get c ''keyword'') gen" w1]
  obtain out w2 where
    u: "update_entries now (map (\<lambda>c. py_get c ''keyword'') gen) data w1 = (Inr out, w2)"
    and l: "length out = length data"
    and s: "\<forall>i<length data. py_get (out ! i) ''status'' =
                 (if py_get (data ! i) ''keyword'' \<in> set (map (\<lambda>c. py_get c ''keyword'') gen)
                  then (if py_get (data ! i) ''category'' = PyStr ''Not Relevant''
                        then PyStr ''Not Relevant'' else PyStr ''Content Generated'')
                  else py_get (data ! i) ''status'')"
    by blast
  have upd: "update_original_data_with_content_links now data gen w1 = (Inr out, w2)"
    using u by (simp add: update_original_data_with_content_links_def
        content_map_keys_strings[OF strs])
  note s' = s[unfolded ks]
  from p upd l s' show ?thesis
    by blast
qed

lemma count_single_marker:
  assumes "j < 4" and "\<forall>i<4. P (f (cts ! i)) = (i = j)" and "length cts = 4"
  shows "length (filter P (map f cts)) = 1"
proof -
  from assms(3) obtain a b c d where cts: "cts = [a, b, c, d]"
    by (auto simp: length_Suc_conv eval_nat_numeral)
  from assms(2) have p: "P (f a) = (0 = j)" "P (f b) = (1 = j)" "P (f c) = (2 = j)"
      "P (f d) = (3 = j)"
    using assms(2)[rule_format, of 0] assms(2)[rule_format, of 1]
      assms(2)[rule_format, of 2] assms(2)[rule_format, of 3]
    by (simp_all add: cts)
  from assms(1) consider "j = 0" | "j = 1" | "j = 2" | "j = 3"
    by linarith
  then show ?thesis
    by cases (simp_all add: cts p)
qed


end
